theory Spec2Isabelle
  imports Complex_Main "HOL-Library.Word"
begin

section \<open>Data model of the TTS service (src/api/src/services/tts\_service.py)\<close>

text \<open>
  The service orchestrates external collaborators (the inference model, the text chunker,
  the audio encoder, the voice store).  Their results are Python values, their failures are
  Python exceptions.  Exceptions are values of \<open>py_exn\<close>; every constructor stands for a
  subclass of Python's \<open>Exception\<close>, which is what the handlers \<open>except Exception\<close> of
  the service catch.  Closing a generator (\<open>GeneratorExit\<close>, not an \<open>Exception\<close>) is modelled
  apart, by the consumer of the stream.
\<close>

datatype py_exn =
    ValueError string
  | RuntimeError string
  | IndexError string
  | FileNotFoundError string
  | OtherException string

text \<open>\<open>str(e)\<close>: the message of an exception.\<close>

fun str_exn :: "py_exn \<Rightarrow> string" where
  "str_exn (ValueError m) = m"
| "str_exn (RuntimeError m) = m"
| "str_exn (IndexError m) = m"
| "str_exn (FileNotFoundError m) = m"
| "str_exn (OtherException m) = m"

text \<open>\<open>isinstance(e, (ValueError, RuntimeError))\<close>, as in \<open>combine_voices\<close>.\<close>

fun is_value_or_runtime :: "py_exn \<Rightarrow> bool" where
  "is_value_or_runtime (ValueError m) = True"
| "is_value_or_runtime (RuntimeError m) = True"
| "is_value_or_runtime e = False"

text \<open>
  A voice embedding is a tensor of the \<open>torch\<close> library.  The service never looks into
  a tensor: it loads, caches, passes on, averages through the library, and saves.  So
  tensors are values of a type parameter \<open>'t\<close>, which stands for the library's tensor
  objects with their shape, their dtype and their floating-point contents.
  Tokens are integer codes, encoded audio is a byte string; the speed factor is a number
  the service only passes on.
\<close>

type_synonym tokens = "nat list"
type_synonym bytes = "8 word list"

text \<open>
  What a file of the voice store holds: a tensor that \<open>torch.load\<close> returns, or content
  on which \<open>torch.load\<close> raises (the message is kept).
\<close>

datatype 't stored = Tensor 't | Unreadable string

text \<open>
  The observable effects of the service, in the order they happen: calls of the external
  operations, log lines, values handed to the consumer of a stream, and calls of the
  housekeeping hook \<open>cleanup\<close> (with its \<open>verbose\<close> argument).
\<close>

datatype 't event =
    TorchLoad string
  | TorchSave string 't
  | ProcessText string char
  | GenerateFromTokens tokens
  | ConvertAudio bool bool
  | Yield bytes
  | LogError string
  | LogGpu string
  | Cleanup bool

text \<open>
  The mutable state shared by all requests: the files of the voice store and the
  memo table of \<open>_load_voice\<close>, most recently used entry first.
\<close>

record 't world =
  files :: "string \<rightharpoonup> 't stored"
  cache :: "(string \<times> 't) list"

text \<open>
  Modelled from the spec: the collaborators of the service live in modules that are not
  among the sources (\<open>text_processing\<close>, \<open>tts_model\<close>, \<open>audio\<close>, \<open>core.config\<close>,
  \<open>utils.housekeeping\<close>).  They are parameters of the model, with the interfaces of
  section 6 of the specification; \<open>'a\<close> is the type of audio buffers (numpy arrays, as
  objects), \<open>'n\<close> the state of an \<open>AudioNormalizer\<close>, \<open>'t\<close> the type of tensors.

  \<^item> \<open>VOICES_DIR\<close> is \<open>TTSModel.VOICES_DIR\<close>, \<open>n_cache_voices\<close> is \<open>settings.n_cache_voices\<close>.
  \<^item> \<open>normalize_text\<close> is an opaque pure function; \<open>split_text\<close> (the chunker) is pure
    and its lazy sequence is finite, so it is a list.
  \<^item> \<open>process_text\<close> (tokenize) may raise; \<open>generate_from_tokens\<close> (synthesize) may
    raise or return \<open>None\<close>.  Both are functions of their arguments.
  \<^item> \<open>np_concatenate\<close> is \<open>numpy.concatenate\<close>, which builds a new array.
  \<^item> \<open>save_error\<close> tells whether \<open>torch.save\<close> to a path raises, and with what.
  \<^item> \<open>torch_mean_stack ts\<close> is the library expression
    \<open>torch.mean(torch.stack(ts), dim=0)\<close>.  It may raise: \<open>torch.stack\<close> on tensors of
    different shapes, \<open>torch.mean\<close> on tensors of an integer dtype.  When it returns,
    its result is the element-wise mean as the library computes it in the dtype of the
    tensors, that is with floating-point rounding.
  \<^item> \<open>cleanup\<close> and \<open>log_gpu_memory\<close> only leave the events \<open>Cleanup\<close> and \<open>LogGpu\<close>.
\<close>

record ('a, 'n, 't) deps =
  VOICES_DIR :: string
  n_cache_voices :: nat
  normalize_text :: "string \<Rightarrow> string"
  split_text :: "string \<Rightarrow> string list"
  process_text :: "string \<Rightarrow> char \<Rightarrow> py_exn + (string \<times> tokens)"
  generate_from_tokens :: "tokens \<Rightarrow> 't \<Rightarrow> rat \<Rightarrow> py_exn + 'a option"
  AudioNormalizer :: 'n
  convert_audio :: "'a \<Rightarrow> nat \<Rightarrow> string \<Rightarrow> bool \<Rightarrow> 'n \<Rightarrow> bool \<Rightarrow> bytes \<times> 'n"
  np_concatenate :: "'a list \<Rightarrow> 'a"
  save_error :: "string \<Rightarrow> py_exn option"
  torch_mean_stack :: "'t list \<Rightarrow> py_exn + 't"

text \<open>
  Modelled from the spec: \<open>AudioService.convert_audio\<close> and \<open>AudioNormalizer\<close> live in
  \<open>services/audio.py\<close>, which is not among the sources.  The field \<open>AudioNormalizer\<close> is
  the state of a fresh normalizer.  The field \<open>convert_audio\<close> follows
  section 4.3 of the specification, \<open>encode(samples, sample_rate, format, position) \<rightarrow> bytes\<close>:
  it returns the bytes of exactly the chunk given and is stateless but for the normalizer,
  whose state it takes and returns (section 4.4).  Its arguments are, in the order of the
  call: the audio, the sample rate, the format, \<open>is_first_chunk\<close>, the normalizer,
  \<open>is_last_chunk\<close>.
\<close>

section \<open>Paths and the voice store\<close>

text \<open>\<open>os.path.join(a, b)\<close> for two components (POSIX).\<close>

definition os_path_join :: "string \<Rightarrow> string \<Rightarrow> string" where
  "os_path_join a b =
     (if b \<noteq> [] \<and> hd b = CHR ''/'' then b
      else if a = [] \<or> last a = CHR ''/'' then a @ b
      else a @ ''/'' @ b)"

text \<open>\<open>os.path.join(TTSModel.VOICES_DIR, f"{voice_name}.pt")\<close>.\<close>

definition voice_file :: "('a, 'n, 't) deps \<Rightarrow> string \<Rightarrow> string" where
  "voice_file d voice_name = os_path_join (VOICES_DIR d) (voice_name @ ''.pt'')"

text \<open>
  \<open>torch.load(path, ...)\<close>: the tensor of the file, or an exception.  The message of the
  exception for a missing file is abbreviated to the path.
\<close>

definition torch_load :: "'t world \<Rightarrow> string \<Rightarrow> py_exn + 't" where
  "torch_load w path =
     (case files w path of
        None \<Rightarrow> Inl (FileNotFoundError path)
      | Some (Unreadable m) \<Rightarrow> Inl (OtherException m)
      | Some (Tensor t) \<Rightarrow> Inr t)"

text \<open>\<open>TTSService._get_voice_path\<close>: the path if the file exists, else \<open>None\<close>.\<close>

definition get_voice_path :: "('a, 'n, 't) deps \<Rightarrow> 't world \<Rightarrow> string \<Rightarrow> string option" where
  "get_voice_path d w voice_name =
     (let voice_path = voice_file d voice_name
      in if files w voice_path \<noteq> None then Some voice_path else None)"

section \<open>The voice cache: \<open>_load_voice\<close> under \<open>functools.lru_cache\<close>\<close>

text \<open>
  \<open>@lru_cache(maxsize=settings.n_cache_voices)\<close> keeps the results of \<open>torch.load\<close> by
  argument.  The table is a list of (path, tensor) pairs in recency order, the most
  recently used first.  A new entry goes to the front; when the table already holds
  \<open>maxsize\<close> entries the oldest one (the last) is dropped.  With \<open>maxsize = 0\<close> nothing is
  stored.
\<close>

definition lru_insert :: "nat \<Rightarrow> string \<times> 't \<Rightarrow> (string \<times> 't) list \<Rightarrow> (string \<times> 't) list" where
  "lru_insert maxsize kv c =
     (if maxsize = 0 then c
      else if maxsize \<le> length c then kv # butlast c
      else kv # c)"

text \<open>A hit moves the entry to the front.\<close>

definition lru_touch :: "string \<Rightarrow> 't \<Rightarrow> (string \<times> 't) list \<Rightarrow> (string \<times> 't) list" where
  "lru_touch path v c = (path, v) # filter (\<lambda>kv. fst kv \<noteq> path) c"

text \<open>
  \<open>TTSService._load_voice\<close>.  On a hit the cached tensor is returned and storage is not
  read (no \<open>TorchLoad\<close> event).  On a miss \<open>torch.load\<close> runs; an exception leaves the table
  as it was, a result is stored.
\<close>

definition load_voice :: "('a, 'n, 't) deps \<Rightarrow> 't world \<Rightarrow> string \<Rightarrow> (py_exn + 't) \<times> 't event list \<times> 't world" where
  "load_voice d w voice_path =
     (case map_of (cache w) voice_path of
        Some v \<Rightarrow> (Inr v, [], w\<lparr>cache := lru_touch voice_path v (cache w)\<rparr>)
      | None \<Rightarrow>
         (case torch_load w voice_path of
            Inl e \<Rightarrow> (Inl e, [TorchLoad voice_path], w)
          | Inr v \<Rightarrow> (Inr v, [TorchLoad voice_path],
                      w\<lparr>cache := lru_insert (n_cache_voices d) (voice_path, v) (cache w)\<rparr>)))"

text \<open>Loading a sequence of paths one after the other, as successive requests do.\<close>

fun load_voices :: "('a, 'n, 't) deps \<Rightarrow> 't world \<Rightarrow> string list \<Rightarrow> (py_exn + 't) list \<times> 't event list \<times> 't world" where
  "load_voices d w [] = ([], [], w)"
| "load_voices d w (p # ps) =
     (case load_voice d w p of (r, evs, w') \<Rightarrow>
        (case load_voices d w' ps of (rs, evs', w'') \<Rightarrow> (r # rs, evs @ evs', w'')))"

section \<open>Calls of the inference model\<close>

text \<open>\<open>f"'{chunk}'"\<close>: a string between single quotes, as the log lines print chunks.\<close>

definition quoted :: "string \<Rightarrow> string" where
  "quoted s = CHR 0x27 # s @ [CHR 0x27]"

text \<open>\<open>voice[0]\<close>: indexing the empty string raises \<open>IndexError\<close>.\<close>

definition voice_first :: "string \<Rightarrow> py_exn + char" where
  "voice_first voice =
     (case voice of [] \<Rightarrow> Inl (IndexError ''string index out of range'') | c # _ \<Rightarrow> Inr c)"

text \<open>
  \<open>TTSModel.process_text(chunk, voice[0])\<close>: the argument \<open>voice[0]\<close> is evaluated first,
  so the model is only called when the voice name is not empty.
\<close>

definition call_process_text ::
  "('a, 'n, 't) deps \<Rightarrow> string \<Rightarrow> string \<Rightarrow> (py_exn + (string \<times> tokens)) \<times> 't event list" where
  "call_process_text d chunk voice =
     (case voice_first voice of
        Inl e \<Rightarrow> (Inl e, [])
      | Inr c \<Rightarrow> (process_text d chunk c, [ProcessText chunk c]))"

text \<open>\<open>TTSModel.generate_from_tokens(tokens, voicepack, speed)\<close>.\<close>

definition call_generate_from_tokens ::
  "('a, 'n, 't) deps \<Rightarrow> tokens \<Rightarrow> 't \<Rightarrow> rat \<Rightarrow> (py_exn + 'a option) \<times> 't event list" where
  "call_generate_from_tokens d toks voicepack speed =
     (generate_from_tokens d toks voicepack speed, [GenerateFromTokens toks])"

section \<open>The non-streaming path: \<open>_generate_audio\<close> and \<open>_generate_audio_internal\<close>\<close>

text \<open>
  The first loop of the stitching branch (lines 77 to 84): every chunk is tokenized;
  a chunk whose tokenization raises is logged and skipped.  \<open>chunks_data\<close> is the list
  the loop appends to.
\<close>

fun preprocess_chunks ::
  "('a, 'n, 't) deps \<Rightarrow> string \<Rightarrow> string list \<Rightarrow> (string \<times> tokens) list
     \<Rightarrow> (string \<times> tokens) list \<times> 't event list" where
  "preprocess_chunks d voice [] chunks_data = (chunks_data, [])"
| "preprocess_chunks d voice (chunk # rest) chunks_data =
     (case call_process_text d chunk voice of
        (Inr (phonemes, toks), evs) \<Rightarrow>
          (case preprocess_chunks d voice rest (chunks_data @ [(chunk, toks)]) of
             (cd, evs') \<Rightarrow> (cd, evs @ evs'))
      | (Inl e, evs) \<Rightarrow>
          (case preprocess_chunks d voice rest chunks_data of
             (cd, evs') \<Rightarrow>
               (cd, evs @ [LogError (''Failed to process chunk: '' @ quoted chunk
                                      @ ''. Error: '' @ str_exn e)] @ evs')))"

text \<open>
  The second loop (lines 90 to 100): every tokenized chunk is synthesized; a result of
  \<open>None\<close> and an exception are both logged and skipped.
\<close>

fun generate_chunks ::
  "('a, 'n, 't) deps \<Rightarrow> 't \<Rightarrow> rat \<Rightarrow> (string \<times> tokens) list \<Rightarrow> 'a list
     \<Rightarrow> 'a list \<times> 't event list" where
  "generate_chunks d voicepack speed [] audio_chunks = (audio_chunks, [])"
| "generate_chunks d voicepack speed ((chunk, toks) # rest) audio_chunks =
     (case call_generate_from_tokens d toks voicepack speed of
        (Inr (Some chunk_audio), evs) \<Rightarrow>
          (case generate_chunks d voicepack speed rest (audio_chunks @ [chunk_audio]) of
             (ac, evs') \<Rightarrow> (ac, evs @ evs'))
      | (Inr None, evs) \<Rightarrow>
          (case generate_chunks d voicepack speed rest audio_chunks of
             (ac, evs') \<Rightarrow>
               (ac, evs @ [LogError (''No audio generated for chunk: '' @ quoted chunk)] @ evs'))
      | (Inl e, evs) \<Rightarrow>
          (case generate_chunks d voicepack speed rest audio_chunks of
             (ac, evs') \<Rightarrow>
               (ac, evs @ [LogError (''Failed to generate audio for chunk: '' @ quoted chunk
                                      @ ''. Error: '' @ str_exn e)] @ evs')))"

text \<open>
  The body of the \<open>try\<close> of \<open>_generate_audio_internal\<close> (lines 58 to 115).  The result is
  the audio, which in the branch without stitching may be \<open>None\<close>; the processing time
  (a wall-clock difference) is left out.
\<close>

definition generate_audio_internal_try ::
  "('a, 'n, 't) deps \<Rightarrow> 't world \<Rightarrow> string \<Rightarrow> string \<Rightarrow> rat \<Rightarrow> bool
     \<Rightarrow> (py_exn + 'a option) \<times> 't event list \<times> 't world" where
  "generate_audio_internal_try d w text voice speed stitch_long_output =
     (if text = [] then (Inl (ValueError ''Text is empty after preprocessing''), [], w)
      else let normalized = normalize_text d text in
      if normalized = [] then (Inl (ValueError ''Text is empty after preprocessing''), [], w)
      else
       (case get_voice_path d w voice of
          None \<Rightarrow> (Inl (ValueError (''Voice not found: '' @ voice)), [], w)
        | Some voice_path \<Rightarrow>
           if voice_path = [] then (Inl (ValueError (''Voice not found: '' @ voice)), [], w)
           else
           (case load_voice d w voice_path of
              (Inl e, evs, w') \<Rightarrow> (Inl e, evs, w')
            | (Inr voicepack, evs, w') \<Rightarrow>
               if stitch_long_output then
                 (case preprocess_chunks d voice (split_text d normalized) [] of
                    (chunks_data, evs1) \<Rightarrow>
                      if chunks_data = [] then
                        (Inl (ValueError ''No chunks were processed successfully''), evs @ evs1, w')
                      else
                       (case generate_chunks d voicepack speed chunks_data [] of
                          (audio_chunks, evs2) \<Rightarrow>
                            if audio_chunks = [] then
                              (Inl (ValueError ''No audio chunks were generated successfully''),
                               evs @ evs1 @ evs2, w')
                            else
                              (Inr (Some (if length audio_chunks > 1
                                          then np_concatenate d audio_chunks
                                          else audio_chunks ! 0)),
                               evs @ evs1 @ evs2, w')))
               else
                 (case call_process_text d normalized voice of
                    (Inl e, evs1) \<Rightarrow> (Inl e, evs @ evs1, w')
                  | (Inr (phonemes, toks), evs1) \<Rightarrow>
                     (case call_generate_from_tokens d toks voicepack speed of
                        (Inl e, evs2) \<Rightarrow>
                          (Inl e,
                           evs @ evs1 @ [LogGpu ''After text processing, pre-generate''] @ evs2, w')
                      | (Inr audio, evs2) \<Rightarrow>
                          (Inr audio,
                           evs @ evs1 @ [LogGpu ''After text processing, pre-generate''] @ evs2
                             @ [LogGpu ''After audio generation'', Cleanup True], w'))))))"

text \<open>\<open>_generate_audio_internal\<close>: an exception of the body is logged and raised again.\<close>

definition generate_audio_internal ::
  "('a, 'n, 't) deps \<Rightarrow> 't world \<Rightarrow> string \<Rightarrow> string \<Rightarrow> rat \<Rightarrow> bool
     \<Rightarrow> (py_exn + 'a option) \<times> 't event list \<times> 't world" where
  "generate_audio_internal d w text voice speed stitch_long_output =
     (case generate_audio_internal_try d w text voice speed stitch_long_output of
        (Inl e, evs, w') \<Rightarrow>
          (Inl e, evs @ [LogError (''Error in audio generation: '' @ str_exn e)], w')
      | (Inr audio, evs, w') \<Rightarrow> (Inr audio, evs, w'))"

text \<open>\<open>_generate_audio\<close>: \<open>try: ... finally: cleanup()\<close>.\<close>

definition generate_audio ::
  "('a, 'n, 't) deps \<Rightarrow> 't world \<Rightarrow> string \<Rightarrow> string \<Rightarrow> rat \<Rightarrow> bool
     \<Rightarrow> (py_exn + 'a option) \<times> 't event list \<times> 't world" where
  "generate_audio d w text voice speed stitch_long_output =
     (case generate_audio_internal d w text voice speed stitch_long_output of
        (r, evs, w') \<Rightarrow> (r, evs @ [Cleanup False], w'))"

section \<open>The streaming path: \<open>generate_audio_stream\<close>\<close>

text \<open>
  The consumer of the asynchronous generator either reads until the generator is
  exhausted, or closes it after it has received a number of items.  Closing raises
  \<open>GeneratorExit\<close> at the \<open>yield\<close> where the generator is suspended; a generator closed
  before its first item was asked for never runs.
\<close>

datatype consumer = ReadAll | CloseAfter nat

text \<open>The consumer after one more item.\<close>

fun received :: "consumer \<Rightarrow> consumer" where
  "received ReadAll = ReadAll"
| "received (CloseAfter k) = CloseAfter (k - 1)"

text \<open>How a generator ends; \<open>NotStarted\<close> is a generator closed before it ever ran.\<close>

datatype stream_end = Exhausted | Raised py_exn | Closed | NotStarted

text \<open>\<open>next(chunk_gen, None)\<close>.\<close>

definition next_item :: "string list \<Rightarrow> string option \<times> string list" where
  "next_item chunk_gen = (case chunk_gen of [] \<Rightarrow> (None, []) | c # cs \<Rightarrow> (Some c, cs))"

text \<open>
  The \<open>try\<close> block of one iteration (lines 156 to 183), up to and including the \<open>yield\<close>:
  the events, whether bytes were yielded, and the normalizer afterwards.  Every exception
  is caught by \<open>except Exception\<close> and logged.
\<close>

definition stream_chunk ::
  "('a, 'n, 't) deps \<Rightarrow> string \<Rightarrow> 't \<Rightarrow> rat \<Rightarrow> string \<Rightarrow> string \<Rightarrow> bool \<Rightarrow> 'n \<Rightarrow> bool
     \<Rightarrow> 't event list \<times> bool \<times> 'n" where
  "stream_chunk d voice voicepack speed output_format current_chunk is_first normalizer is_last =
     (case call_process_text d current_chunk voice of
        (Inl e, evs1) \<Rightarrow>
          (evs1 @ [LogError (''Failed to generate audio for chunk: '' @ quoted current_chunk
                              @ ''. Error: '' @ str_exn e)], False, normalizer)
      | (Inr (phonemes, toks), evs1) \<Rightarrow>
         (case call_generate_from_tokens d toks voicepack speed of
            (Inl e, evs2) \<Rightarrow>
              (evs1 @ evs2 @ [LogError (''Failed to generate audio for chunk: ''
                                @ quoted current_chunk @ ''. Error: '' @ str_exn e)],
               False, normalizer)
          | (Inr None, evs2) \<Rightarrow>
              (evs1 @ evs2 @ [LogError (''No audio generated for chunk: '' @ quoted current_chunk)],
               False, normalizer)
          | (Inr (Some chunk_audio), evs2) \<Rightarrow>
             (case convert_audio d chunk_audio 24000 output_format is_first normalizer is_last of
                (chunk_bytes, normalizer') \<Rightarrow>
                  (evs1 @ evs2 @ [ConvertAudio is_first is_last, Yield chunk_bytes],
                   True, normalizer'))))"

text \<open>
  The \<open>while\<close> loop (lines 152 to 185).  The result tells whether the consumer closed the
  generator at a \<open>yield\<close>.  \<open>is_first\<close> is cleared only when the generator is resumed
  after a \<open>yield\<close>.
\<close>

function stream_loop ::
  "('a, 'n, 't) deps \<Rightarrow> string \<Rightarrow> 't \<Rightarrow> rat \<Rightarrow> string \<Rightarrow> string option \<Rightarrow> string list
     \<Rightarrow> bool \<Rightarrow> 'n \<Rightarrow> consumer \<Rightarrow> bool \<times> 't event list" where
  "stream_loop d voice voicepack speed output_format None chunk_gen is_first normalizer cons =
     (False, [])"
| "stream_loop d voice voicepack speed output_format (Some current_chunk) chunk_gen
       is_first normalizer cons =
     (case stream_chunk d voice voicepack speed output_format current_chunk is_first normalizer
             (fst (next_item chunk_gen) = None) of
        (evs, yielded, normalizer') \<Rightarrow>
          if yielded \<and> cons = CloseAfter 1 then (True, evs)
          else
           (case stream_loop d voice voicepack speed output_format
                   (fst (next_item chunk_gen)) (snd (next_item chunk_gen))
                   (if yielded then False else is_first) normalizer'
                   (if yielded then received cons else cons) of
              (was_closed, evs') \<Rightarrow> (was_closed, evs @ evs')))"
  by pat_completeness auto
termination
  by (relation "measure (\<lambda>(d, voice, voicepack, speed, output_format, cur, chunk_gen, rest).
                   (case cur of None \<Rightarrow> 0 | Some c \<Rightarrow> Suc (length chunk_gen)))")
     (auto simp: next_item_def split: list.splits)

text \<open>
  Lines 149 to 185: the first chunk is taken from the chunker (\<open>next(chunk_gen, None)\<close>),
  then the loop runs.
\<close>

definition stream_chunks ::
  "('a, 'n, 't) deps \<Rightarrow> string \<Rightarrow> 't \<Rightarrow> rat \<Rightarrow> string \<Rightarrow> string list
     \<Rightarrow> bool \<Rightarrow> 'n \<Rightarrow> consumer \<Rightarrow> bool \<times> 't event list" where
  "stream_chunks d voice voicepack speed output_format chunk_gen is_first normalizer cons =
     stream_loop d voice voicepack speed output_format
       (fst (next_item chunk_gen)) (snd (next_item chunk_gen)) is_first normalizer cons"

text \<open>The body of the outer \<open>try\<close> of \<open>generate_audio_stream\<close> (lines 126 to 185).\<close>

definition generate_audio_stream_try ::
  "('a, 'n, 't) deps \<Rightarrow> 't world \<Rightarrow> string \<Rightarrow> string \<Rightarrow> rat \<Rightarrow> string \<Rightarrow> consumer
     \<Rightarrow> (py_exn + bool) \<times> 't event list \<times> 't world" where
  "generate_audio_stream_try d w text voice speed output_format cons =
     (let stream_normalizer = AudioNormalizer d in
      if text = [] then (Inl (ValueError ''Text is empty''), [], w)
      else let normalized = normalize_text d text in
      if normalized = [] then (Inl (ValueError ''Text is empty after preprocessing''), [], w)
      else
       (case get_voice_path d w voice of
          None \<Rightarrow> (Inl (ValueError (''Voice not found: '' @ voice)), [], w)
        | Some voice_path \<Rightarrow>
           if voice_path = [] then (Inl (ValueError (''Voice not found: '' @ voice)), [], w)
           else
           (case load_voice d w voice_path of
              (Inl e, evs, w') \<Rightarrow> (Inl e, evs, w')
            | (Inr voicepack, evs, w') \<Rightarrow>
               (case stream_chunks d voice voicepack speed output_format
                       (split_text d normalized) True stream_normalizer cons of
                  (was_closed, evs') \<Rightarrow> (Inr was_closed, evs @ evs', w')))))"

text \<open>
  \<open>generate_audio_stream\<close>: \<open>except Exception\<close> logs and raises again, \<open>finally\<close> calls
  \<open>cleanup()\<close>.  \<open>GeneratorExit\<close> is not an \<open>Exception\<close>, so a close only runs the
  \<open>finally\<close> clause.
\<close>

definition generate_audio_stream ::
  "('a, 'n, 't) deps \<Rightarrow> 't world \<Rightarrow> string \<Rightarrow> string \<Rightarrow> rat \<Rightarrow> string \<Rightarrow> consumer
     \<Rightarrow> stream_end \<times> 't event list \<times> 't world" where
  "generate_audio_stream d w text voice speed output_format cons =
     (if cons = CloseAfter 0 then (NotStarted, [], w)
      else
       (case generate_audio_stream_try d w text voice speed output_format cons of
          (Inl e, evs, w') \<Rightarrow>
            (Raised e,
             evs @ [LogError (''Error in audio generation stream: '' @ str_exn e), Cleanup False],
             w')
        | (Inr was_closed, evs, w') \<Rightarrow>
            (if was_closed then Closed else Exhausted, evs @ [Cleanup False], w')))"

section \<open>Voice combination: \<open>combine_voices\<close>\<close>

text \<open>
  The loading loop (lines 213 to 222): each voice is read with \<open>torch.load\<close> directly;
  the first failure raises a \<open>ValueError\<close> naming the voice.
\<close>

fun combine_load ::
  "('a, 'n, 't) deps \<Rightarrow> 't world \<Rightarrow> string list \<Rightarrow> 't list \<Rightarrow> string list
     \<Rightarrow> (py_exn + 't list \<times> string list) \<times> 't event list" where
  "combine_load d w [] t_voices v_name = (Inr (t_voices, v_name), [])"
| "combine_load d w (voice # rest) t_voices v_name =
     (let voice_path = voice_file d voice in
      case torch_load w voice_path of
        Inl e \<Rightarrow>
          (Inl (ValueError (''Failed to load voice '' @ voice @ '': '' @ str_exn e)),
           [TorchLoad voice_path])
      | Inr voicepack \<Rightarrow>
          (case combine_load d w rest (t_voices @ [voicepack]) (v_name @ [voice]) of
             (r, evs) \<Rightarrow> (r, TorchLoad voice_path # evs)))"

text \<open>\<open>sep.join(xs)\<close>.\<close>

fun str_join :: "string \<Rightarrow> string list \<Rightarrow> string" where
  "str_join sep [] = []"
| "str_join sep [x] = x"
| "str_join sep (x # y # ys) = x @ sep @ str_join sep (y # ys)"

text \<open>The outer handler (lines 242 to 245) wraps what is neither ValueError nor RuntimeError.\<close>

definition wrap_combining :: "py_exn \<Rightarrow> py_exn" where
  "wrap_combining e =
     (if \<not> is_value_or_runtime e then RuntimeError (''Error combining voices: '' @ str_exn e)
      else e)"

text \<open>
  \<open>combine_voices\<close> (lines 204 to 245).  An exception of \<open>torch.stack\<close> or \<open>torch.mean\<close>
  at line 227 reaches the outer handler only: nothing is saved and \<open>cleanup\<close> is not
  called.  A failing \<open>torch.save\<close> becomes a \<open>RuntimeError\<close>, and \<open>cleanup\<close> is called in
  the \<open>finally\<close> clause of the save.
\<close>

definition combine_voices ::
  "('a, 'n, 't) deps \<Rightarrow> 't world \<Rightarrow> string list \<Rightarrow> (py_exn + string) \<times> 't event list \<times> 't world" where
  "combine_voices d w voices =
     (if length voices < 2 then
        (Inl (ValueError ''At least 2 voices are required for combination''), [], w)
      else
       (case combine_load d w voices [] [] of
          (Inl e, evs) \<Rightarrow> (Inl e, evs, w)
        | (Inr (t_voices, v_name), evs) \<Rightarrow>
           (let f = str_join ''_'' v_name in
            case torch_mean_stack d t_voices of
              Inl e \<Rightarrow> (Inl (wrap_combining e), evs, w)
            | Inr v \<Rightarrow>
               (let combined_path = os_path_join (VOICES_DIR d) (f @ ''.pt'')
                in case save_error d combined_path of
                     Some e \<Rightarrow>
                       (Inl (wrap_combining (RuntimeError
                               (''Failed to save combined voice to '' @ combined_path
                                  @ '': '' @ str_exn e))),
                        evs @ [TorchSave combined_path v, Cleanup False], w)
                   | None \<Rightarrow>
                       (Inr f, evs @ [TorchSave combined_path v, Cleanup False],
                        w\<lparr>files := (files w)(combined_path \<mapsto> Tensor v)\<rparr>)))))"

section \<open>Observations on runs\<close>

text \<open>The byte strings handed to the consumer, in order.\<close>

fun yield_bytes :: "'t event \<Rightarrow> bytes list" where
  "yield_bytes (Yield b) = [b]"
| "yield_bytes e = []"

definition yields :: "'t event list \<Rightarrow> bytes list" where
  "yields evs = concat (map yield_bytes evs)"

text \<open>The pairs (\<open>is_first_chunk\<close>, \<open>is_last_chunk\<close>) of the calls of the encoder, in order.\<close>

fun encoded :: "'t event \<Rightarrow> (bool \<times> bool) list" where
  "encoded (ConvertAudio is_first is_last) = [(is_first, is_last)]"
| "encoded e = []"

definition encodings :: "'t event list \<Rightarrow> (bool \<times> bool) list" where
  "encodings evs = concat (map encoded evs)"

text \<open>Calls of \<open>cleanup\<close>, calls of the inference model, attempts to save.\<close>

fun is_cleanup :: "'t event \<Rightarrow> bool" where
  "is_cleanup (Cleanup verbose) = True"
| "is_cleanup e = False"

definition cleanups :: "'t event list \<Rightarrow> nat" where
  "cleanups evs = length (filter is_cleanup evs)"

fun is_inference :: "'t event \<Rightarrow> bool" where
  "is_inference (ProcessText chunk c) = True"
| "is_inference (GenerateFromTokens toks) = True"
| "is_inference e = False"

fun is_save :: "'t event \<Rightarrow> bool" where
  "is_save (TorchSave path t) = True"
| "is_save e = False"

text \<open>The paths in the voice cache, most recently used first; the world after some loads.\<close>

definition cache_keys :: "'t world \<Rightarrow> string list" where
  "cache_keys w = map fst (cache w)"

definition after_loads :: "('a, 'n, 't) deps \<Rightarrow> 't world \<Rightarrow> string list \<Rightarrow> 't world" where
  "after_loads d w ps = snd (snd (load_voices d w ps))"

text \<open>
  The least-recently-used discipline in the words of section 4.2 of the specification,
  on the list of cached paths (most recently used first) with capacity \<open>n\<close>: a path
  that is used becomes the most recently used one, and what exceeds the capacity is
  dropped from the least recently used end.  \<open>lru_order\<close> is the order after a sequence
  of uses.
\<close>

definition lru_use :: "nat \<Rightarrow> string list \<Rightarrow> string \<Rightarrow> string list" where
  "lru_use n ks p = take n (p # filter (\<lambda>k. k \<noteq> p) ks)"

definition lru_order :: "nat \<Rightarrow> string list \<Rightarrow> string list \<Rightarrow> string list" where
  "lru_order n ks ps = foldl (lru_use n) ks ps"

text \<open>
  What one chunk comes to: its tokens if tokenization returns, and its audio if moreover
  synthesis returns a buffer.  A chunk without audio is a soft failure.
\<close>

definition chunk_tokens :: "('a, 'n, 't) deps \<Rightarrow> string \<Rightarrow> string \<Rightarrow> tokens option" where
  "chunk_tokens d voice chunk =
     (case fst (call_process_text d chunk voice) of
        Inl e \<Rightarrow> None
      | Inr (phonemes, toks) \<Rightarrow> Some toks)"

definition tokens_audio :: "('a, 'n, 't) deps \<Rightarrow> 't \<Rightarrow> rat \<Rightarrow> tokens \<Rightarrow> 'a option" where
  "tokens_audio d voicepack speed toks =
     (case generate_from_tokens d toks voicepack speed of
        Inl e \<Rightarrow> None
      | Inr None \<Rightarrow> None
      | Inr (Some chunk_audio) \<Rightarrow> Some chunk_audio)"

definition chunk_audio ::
  "('a, 'n, 't) deps \<Rightarrow> string \<Rightarrow> 't \<Rightarrow> rat \<Rightarrow> string \<Rightarrow> 'a option" where
  "chunk_audio d voice voicepack speed chunk =
     (case chunk_tokens d voice chunk of
        None \<Rightarrow> None
      | Some toks \<Rightarrow> tokens_audio d voicepack speed toks)"

text \<open>The buffers of the chunks that survive, in the order of the chunks.\<close>

definition surviving ::
  "('a, 'n, 't) deps \<Rightarrow> string \<Rightarrow> 't \<Rightarrow> rat \<Rightarrow> string list \<Rightarrow> 'a list" where
  "surviving d voice voicepack speed chunks =
     List.map_filter (chunk_audio d voice voicepack speed) chunks"

text \<open>
  A request that passes validation: the text and its normal form are not empty, the
  voice file exists, and the cached loader returns the embedding \<open>voicepack\<close>, with
  events \<open>evs\<close>, leaving the world \<open>w'\<close>.
\<close>

definition validated ::
  "('a, 'n, 't) deps \<Rightarrow> 't world \<Rightarrow> string \<Rightarrow> string \<Rightarrow> 't \<Rightarrow> 't event list \<Rightarrow> 't world \<Rightarrow> bool" where
  "validated d w text voice voicepack evs w' =
     (text \<noteq> [] \<and> normalize_text d text \<noteq> [] \<and>
      (case get_voice_path d w voice of
         None \<Rightarrow> False
       | Some voice_path \<Rightarrow> load_voice d w voice_path = (Inr voicepack, evs, w')))"

text \<open>
  The flags of the encoder calls over a list of chunks, given which chunks have audio:
  a chunk with audio is encoded with the current \<open>is_first\<close> and is last when no chunk
  follows; only then is \<open>is_first\<close> cleared.
\<close>

fun stream_flags :: "('c \<Rightarrow> bool) \<Rightarrow> bool \<Rightarrow> 'c list \<Rightarrow> (bool \<times> bool) list" where
  "stream_flags ok is_first [] = []"
| "stream_flags ok is_first (c # cs) =
     (if ok c then (is_first, cs = []) # stream_flags ok False cs
      else stream_flags ok is_first cs)"

section \<open>A small instance\<close>

text \<open>
  Tensors for running the model on concrete requests: one-dimensional, with a floating
  or an integer dtype.  The floating tensors of the instance hold small integers, whose
  means below are representable exactly, so that no rounding takes place.
\<close>

datatype stub_tensor = FloatTensor "rat list" | IntTensor "int list"

text \<open>The contents of a floating tensor; an integer tensor has none.\<close>

fun float_values :: "stub_tensor \<Rightarrow> rat list option" where
  "float_values (FloatTensor xs) = Some xs"
| "float_values (IntTensor ks) = None"

text \<open>
  The library expression \<open>torch.mean(torch.stack(ts), dim=0)\<close> of the instance: it raises
  on an empty list, on an integer tensor and on tensors of different lengths, and
  otherwise returns the mean position by position.  The messages are the instance's own.
\<close>

definition stub_mean_stack :: "stub_tensor list \<Rightarrow> py_exn + stub_tensor" where
  "stub_mean_stack ts =
     (if ts = [] then Inl (RuntimeError ''nothing to stack'')
      else if \<not> list_all (\<lambda>t. float_values t \<noteq> None) ts
      then Inl (RuntimeError ''mean of an integer dtype'')
      else let rows = map (\<lambda>t. the (float_values t)) ts in
      if \<not> list_all (\<lambda>r. length r = length (hd rows)) rows
      then Inl (RuntimeError ''tensors of different sizes'')
      else Inr (FloatTensor
             (map (\<lambda>j. sum_list (map (\<lambda>r. r ! j) rows) / of_nat (length rows))
                [0..<length (hd rows)])))"

text \<open>
  Collaborators for running the model on concrete requests.  Chunks are single
  characters; tokenization fails on \<open>x\<close>, synthesis raises on \<open>y\<close> and returns no audio
  on \<open>z\<close>.  The encoder writes the two flags it was given; audio buffers are lists of
  samples and concatenation is list concatenation.
\<close>

definition stub_deps :: "(int list, nat, stub_tensor) deps" where
  "stub_deps =
     \<lparr> VOICES_DIR = ''v'',
       n_cache_voices = 2,
       normalize_text = filter (\<lambda>c. c \<noteq> CHR '' ''),
       split_text = map (\<lambda>c. [c]),
       process_text = (\<lambda>chunk c.
          if chunk = ''x'' then Inl (OtherException ''bad chunk'')
          else if chunk = ''y'' then Inr (chunk, [1])
          else if chunk = ''z'' then Inr (chunk, [2])
          else Inr (chunk, 0 # map of_char chunk)),
       generate_from_tokens = (\<lambda>toks voicepack speed.
          if toks = [1] then Inl (RuntimeError ''out of memory'')
          else if toks = [2] then Inr None
          else Inr (Some (map int toks))),
       AudioNormalizer = 0,
       convert_audio = (\<lambda>audio rate fmt is_first normalizer is_last.
          ([of_bool is_first, of_bool is_last], Suc normalizer)),
       np_concatenate = concat,
       save_error = (\<lambda>path. None),
       torch_mean_stack = stub_mean_stack \<rparr>"

text \<open>
  A voice store with three floating voices of one shape, one unreadable file, one
  floating voice of another shape and two voices of an integer dtype; nothing is cached
  yet.
\<close>

definition stub_world :: "stub_tensor world" where
  "stub_world =
     \<lparr> files = map_of [(''v/a.pt'', Tensor (FloatTensor [2, 2])),
                       (''v/b.pt'', Tensor (FloatTensor [4, 4])),
                       (''v/c.pt'', Tensor (FloatTensor [6, 6])),
                       (''v/bad.pt'', Unreadable ''corrupt''),
                       (''v/long.pt'', Tensor (FloatTensor [1, 2, 3])),
                       (''v/i.pt'', Tensor (IntTensor [2, 2])),
                       (''v/j.pt'', Tensor (IntTensor [4, 4]))],
       cache = [] \<rparr>"

text \<open>The same collaborators with a voice store that refuses every write.\<close>

definition stub_deps_read_only :: "(int list, nat, stub_tensor) deps" where
  "stub_deps_read_only =
     stub_deps\<lparr>save_error := (\<lambda>path. Some (OtherException ''read-only file system''))\<rparr>"

text \<open>The same collaborators with a voice cache of three entries.\<close>

definition stub_deps_three :: "(int list, nat, stub_tensor) deps" where
  "stub_deps_three = stub_deps\<lparr>n_cache_voices := 3\<rparr>"

section \<open>The voice cache\<close>

text \<open>Loading never changes the voice store, and \<open>torch.load\<close> only reads the store.\<close>

lemma load_voice_files [simp]: "files (snd (snd (load_voice d w p))) = files w"
  by (simp add: load_voice_def split: option.splits sum.splits)

lemma torch_load_files: "files w' = files w \<Longrightarrow> torch_load w' p = torch_load w p"
  by (simp add: torch_load_def)

lemma load_voice_hit:
  "map_of (cache w) p = Some v \<Longrightarrow>
   load_voice d w p = (Inr v, [], w\<lparr>cache := lru_touch p v (cache w)\<rparr>)"
  by (simp add: load_voice_def)

lemma load_voice_miss:
  "map_of (cache w) p = None \<Longrightarrow> torch_load w p = Inr t \<Longrightarrow>
   load_voice d w p =
     (Inr t, [TorchLoad p], w\<lparr>cache := lru_insert (n_cache_voices d) (p, t) (cache w)\<rparr>)"
  by (simp add: load_voice_def)

lemma after_loads_Nil [simp]: "after_loads d w [] = w"
  by (simp add: after_loads_def)

lemma after_loads_Cons [simp]:
  "after_loads d w (p # ps) = after_loads d (snd (snd (load_voice d w p))) ps"
  by (simp add: after_loads_def split: prod.splits)

lemma after_loads_append:
  "after_loads d w (xs @ ys) = after_loads d (after_loads d w xs) ys"
  by (induction xs arbitrary: w) simp_all

lemma after_loads_files [simp]: "files (after_loads d w ps) = files w"
  by (induction ps arbitrary: w) simp_all

lemma fill_cache:
  assumes "distinct ps" "set ps \<inter> set (cache_keys w) = {}"
    "length (cache w) + length ps \<le> n_cache_voices d"
    "\<forall>p\<in>set ps. \<exists>t. torch_load w p = Inr t"
  shows "cache_keys (after_loads d w ps) = rev ps @ cache_keys w"
  using assms
proof (induction ps arbitrary: w)
  case Nil
  then show ?case by simp
next
  case (Cons p ps)
  from Cons.prems obtain t where t: "torch_load w p = Inr t" by auto
  from Cons.prems have miss: "map_of (cache w) p = None"
    by (auto simp: cache_keys_def map_of_eq_None_iff)
  let ?w = "w\<lparr>cache := (p, t) # cache w\<rparr>"
  from Cons.prems have step: "snd (snd (load_voice d w p)) = ?w"
    by (simp add: load_voice_miss [OF miss t] lru_insert_def)
  have "cache_keys (after_loads d ?w ps) = rev ps @ cache_keys ?w"
  proof (rule Cons.IH)
    show "distinct ps" using Cons.prems by simp
    show "set ps \<inter> set (cache_keys ?w) = {}"
      using Cons.prems by (auto simp: cache_keys_def)
    show "length (cache ?w) + length ps \<le> n_cache_voices d" using Cons.prems by simp
    show "\<forall>p\<in>set ps. \<exists>t. torch_load ?w p = Inr t"
      using Cons.prems by (simp add: torch_load_def)
  qed
  then show ?case by (simp add: step cache_keys_def)
qed


lemma torch_load_load_voice [simp]:
  "torch_load (snd (snd (load_voice d w p))) q = torch_load w q"
  by (simp add: torch_load_def)

lemma torch_load_after [simp]: "torch_load (after_loads d w ps) p = torch_load w p"
  by (simp add: torch_load_def)

lemma length_cache_keys [simp]: "length (cache_keys w) = length (cache w)"
  by (simp add: cache_keys_def)

lemma load_miss_full:
  assumes "0 < n_cache_voices d" "n_cache_voices d \<le> length (cache w)"
    "p \<notin> set (cache_keys w)" "torch_load w p = Inr t"
  shows "cache_keys (after_loads d w [p]) = p # butlast (cache_keys w)"
proof -
  from assms(3) have miss: "map_of (cache w) p = None"
    by (simp add: cache_keys_def map_of_eq_None_iff)
  show ?thesis using assms(1,2)
    by (simp add: load_voice_miss [OF miss assms(4)] lru_insert_def cache_keys_def map_butlast)
qed

lemma load_hit_keys:
  assumes "p \<in> set (cache_keys w)"
  shows "cache_keys (after_loads d w [p]) = p # filter (\<lambda>k. k \<noteq> p) (cache_keys w)"
proof -
  from assms obtain v where hit: "map_of (cache w) p = Some v"
    by (cases "map_of (cache w) p") (auto simp: cache_keys_def map_of_eq_None_iff)
  show ?thesis
    by (simp add: load_voice_hit [OF hit] lru_touch_def cache_keys_def filter_map comp_def)
qed

lemma evict_oldest:
  assumes "cache w = []" "distinct ps" "length ps = Suc (n_cache_voices d)"
    "\<forall>p\<in>set ps. \<exists>t. torch_load w p = Inr t"
  shows "cache_keys (after_loads d w ps) = rev (tl ps)"
proof (cases "n_cache_voices d = 0")
  case True
  with assms(3) obtain q where ps: "ps = [q]" by (cases ps) auto
  from assms(4) ps obtain t where t: "torch_load w q = Inr t" by auto
  have miss: "map_of (cache w) q = None" using assms(1) by simp
  show ?thesis using True assms(1)
    by (simp add: ps load_voice_miss [OF miss t] lru_insert_def cache_keys_def)
next
  case False
  define xs where "xs = butlast ps"
  define q where "q = last ps"
  from assms(3) have ps: "ps = xs @ [q]" unfolding xs_def q_def by (cases ps) auto
  from assms(3) ps have len: "length xs = n_cache_voices d" by simp
  from False len have xs_ne: "xs \<noteq> []" by auto
  have filled: "cache_keys (after_loads d w xs) = rev xs @ cache_keys w"
  proof (rule fill_cache)
    show "distinct xs" using assms(2) ps by simp
    show "set xs \<inter> set (cache_keys w) = {}" using assms(1) by (simp add: cache_keys_def)
    show "length (cache w) + length xs \<le> n_cache_voices d" using assms(1) len by simp
    show "\<forall>p\<in>set xs. \<exists>t. torch_load w p = Inr t" using assms(4) ps by simp
  qed
  then have keys: "cache_keys (after_loads d w xs) = rev xs"
    using assms(1) by (simp add: cache_keys_def)
  from assms(4) ps obtain t where t: "torch_load (after_loads d w xs) q = Inr t" by auto
  have "cache_keys (after_loads d (after_loads d w xs) [q]) =
          q # butlast (cache_keys (after_loads d w xs))"
  proof (rule load_miss_full [OF _ _ _ t])
    show "0 < n_cache_voices d" using False by simp
    have "length (cache (after_loads d w xs)) = length (cache_keys (after_loads d w xs))"
      by simp
    then show "n_cache_voices d \<le> length (cache (after_loads d w xs))"
      using len by (simp only: keys length_rev)
    show "q \<notin> set (cache_keys (after_loads d w xs))"
      using assms(2) ps by (simp add: keys)
  qed
  then have "cache_keys (after_loads d w ps) = q # butlast (rev xs)"
    by (simp only: ps after_loads_append keys)
  also have "\<dots> = rev (tl ps)" using xs_ne by (simp add: ps)
  finally show ?thesis .
qed

lemma touch_changes_eviction:
  assumes "cache w = []" "distinct (ps @ [q])" "length ps = n_cache_voices d"
    "2 \<le> length ps" "\<forall>p\<in>set (ps @ [q]). \<exists>t. torch_load w p = Inr t"
  shows "cache_keys (after_loads d w (ps @ [hd ps, q])) = q # hd ps # rev (tl (tl ps))"
proof -
  from assms(4) obtain a b rest where ps: "ps = a # b # rest"
    by (cases ps; cases "tl ps") auto
  have filled: "cache_keys (after_loads d w ps) = rev ps @ cache_keys w"
  proof (rule fill_cache)
    show "distinct ps" using assms(2) by simp
    show "set ps \<inter> set (cache_keys w) = {}" using assms(1) by (simp add: cache_keys_def)
    show "length (cache w) + length ps \<le> n_cache_voices d" using assms(1,3) by simp
    show "\<forall>p\<in>set ps. \<exists>t. torch_load w p = Inr t" using assms(5) by simp
  qed
  then have keys: "cache_keys (after_loads d w ps) = rev ps"
    using assms(1) by (simp add: cache_keys_def)
  let ?w1 = "after_loads d w ps"
  let ?w2 = "after_loads d ?w1 [a]"
  have "cache_keys ?w2 = a # filter (\<lambda>k. k \<noteq> a) (cache_keys ?w1)"
    by (rule load_hit_keys) (simp only: keys, simp add: ps)
  also have "\<dots> = a # rev (b # rest)"
    using assms(2) by (simp only: keys) (auto simp: ps filter_id_conv)
  finally have keys2: "cache_keys ?w2 = a # rev (b # rest)" .
  from assms(5) obtain t where t: "torch_load ?w2 q = Inr t" by auto
  have "cache_keys (after_loads d ?w2 [q]) = q # butlast (cache_keys ?w2)"
  proof (rule load_miss_full [OF _ _ _ t])
    show "0 < n_cache_voices d" using assms(3,4) by simp
    have "length (cache ?w2) = length (cache_keys ?w2)" by simp
    then show "n_cache_voices d \<le> length (cache ?w2)"
      using assms(3) by (simp only: keys2) (simp add: ps)
    show "q \<notin> set (cache_keys ?w2)" using assms(2) by (simp only: keys2) (auto simp: ps)
  qed
  then have "cache_keys (after_loads d w (ps @ [a] @ [q])) = q # butlast (a # rev (b # rest))"
    by (simp only: after_loads_append keys2)
  then show ?thesis by (simp add: ps butlast_append)
qed

lemma load_voice_step_keys:
  assumes d: "distinct (cache_keys w)" and l: "length (cache w) \<le> n_cache_voices d"
    and ok: "p \<in> set (cache_keys w) \<or> (\<exists>t. torch_load w p = Inr t)"
  shows "cache_keys (snd (snd (load_voice d w p))) = lru_use (n_cache_voices d) (cache_keys w) p"
proof (cases "p \<in> set (cache_keys w)")
  case True
  have "length (filter (\<lambda>k. k \<noteq> p) (cache_keys w)) < length (cache_keys w)"
    using True by (intro length_filter_less) auto
  then have "length (p # filter (\<lambda>k. k \<noteq> p) (cache_keys w)) \<le> n_cache_voices d"
    using l by simp
  then show ?thesis
    using load_hit_keys [OF True, of d] by (simp add: lru_use_def)
next
  case False
  with ok obtain t where t: "torch_load w p = Inr t" by blast
  from False have miss: "map_of (cache w) p = None"
    by (simp add: cache_keys_def map_of_eq_None_iff)
  have same: "filter (\<lambda>k. k \<noteq> p) (cache_keys w) = cache_keys w"
    using False by (auto simp: filter_id_conv)
  show ?thesis
  proof (cases "n_cache_voices d = 0")
    case True
    with l show ?thesis
      by (simp add: load_voice_miss [OF miss t] lru_insert_def lru_use_def cache_keys_def)
  next
    case n: False
    show ?thesis
    proof (cases "n_cache_voices d \<le> length (cache w)")
      case True
      with l have eq: "length (cache_keys w) = n_cache_voices d" by simp
      have "take (n_cache_voices d) (p # cache_keys w)
              = p # take (n_cache_voices d - 1) (cache_keys w)"
        using n by (cases "n_cache_voices d") simp_all
      also have "\<dots> = p # butlast (cache_keys w)"
        by (simp only: butlast_conv_take eq)
      finally have tk: "take (n_cache_voices d) (p # cache_keys w) = p # butlast (cache_keys w)" .
      have "cache_keys (snd (snd (load_voice d w p))) = p # butlast (cache_keys w)"
        using load_miss_full [OF _ True False t] n by simp
      then show ?thesis by (simp only: lru_use_def same tk)
    next
      case room: False
      then have tk: "take (n_cache_voices d) (p # cache_keys w) = p # cache_keys w"
        by (intro take_all) simp
      have "cache_keys (snd (snd (load_voice d w p))) = p # cache_keys w"
        using n room
        by (simp add: load_voice_miss [OF miss t] lru_insert_def cache_keys_def)
      then show ?thesis by (simp only: lru_use_def same tk)
    qed
  qed
qed

lemma lru_use_invariant:
  "distinct ks \<Longrightarrow> distinct (lru_use n ks p) \<and> length (lru_use n ks p) \<le> n"
  by (auto simp: lru_use_def intro!: distinct_take)

lemma load_voice_error_keeps_cache:
  "map_of (cache w) p = None \<Longrightarrow> torch_load w p = Inl e \<Longrightarrow>
   load_voice d w p = (Inl e, [TorchLoad p], w)"
  by (simp add: load_voice_def)

lemma load_voice_invariant:
  assumes "distinct (cache_keys w)" and "length (cache w) \<le> n_cache_voices d"
  shows "distinct (cache_keys (snd (snd (load_voice d w p))))
       \<and> length (cache (snd (snd (load_voice d w p)))) \<le> n_cache_voices d"
proof (cases "p \<in> set (cache_keys w) \<or> (\<exists>t. torch_load w p = Inr t)")
  case True
  have "length (cache (snd (snd (load_voice d w p))))
          = length (cache_keys (snd (snd (load_voice d w p))))" by simp
  then show ?thesis
    using lru_use_invariant [OF assms(1), of "n_cache_voices d" p]
    by (simp only: load_voice_step_keys [OF assms True])
next
  case False
  then have miss: "map_of (cache w) p = None"
    by (simp add: cache_keys_def map_of_eq_None_iff)
  from False obtain e where "torch_load w p = Inl e"
    by (cases "torch_load w p") auto
  from load_voice_error_keeps_cache [OF miss this, where d = d] assms show ?thesis by simp
qed

lemma after_loads_invariant:
  "distinct (cache_keys w) \<Longrightarrow> length (cache w) \<le> n_cache_voices d \<Longrightarrow>
   distinct (cache_keys (after_loads d w ps))
   \<and> length (cache (after_loads d w ps)) \<le> n_cache_voices d"
proof (induction ps arbitrary: w)
  case Nil
  then show ?case by simp
next
  case (Cons p ps)
  from load_voice_invariant [OF Cons.prems, of p] show ?case
    by (simp add: Cons.IH)
qed

lemma after_loads_lru_order:
  "distinct (cache_keys w) \<Longrightarrow> length (cache w) \<le> n_cache_voices d \<Longrightarrow>
   \<forall>p\<in>set ps. \<exists>t. torch_load w p = Inr t \<Longrightarrow>
   cache_keys (after_loads d w ps) = lru_order (n_cache_voices d) (cache_keys w) ps"
proof (induction ps arbitrary: w)
  case Nil
  then show ?case by (simp add: lru_order_def)
next
  case (Cons p ps)
  let ?w = "snd (snd (load_voice d w p))"
  from Cons.prems have ok: "p \<in> set (cache_keys w) \<or> (\<exists>t. torch_load w p = Inr t)" by simp
  have k: "cache_keys ?w = lru_use (n_cache_voices d) (cache_keys w) p"
    using Cons.prems(1,2) ok by (rule load_voice_step_keys)
  from load_voice_invariant [OF Cons.prems(1,2), of p]
  have inv: "distinct (cache_keys ?w)" "length (cache ?w) \<le> n_cache_voices d" by simp_all
  have "\<forall>q\<in>set ps. \<exists>t. torch_load ?w q = Inr t" using Cons.prems(3) by simp
  from Cons.IH [OF inv this] show ?case by (simp add: k lru_order_def)
qed

lemma lru_from_empty:
  "(map_of (cache w) p = Some v \<longrightarrow>
      fst (load_voice d w p) = Inr v \<and> fst (snd (load_voice d w p)) = [])
   \<and> (0 < n_cache_voices d \<and> load_voice d w p = (Inr v, evs, w1) \<longrightarrow>
        (\<forall>fs. fst (load_voice d (w1\<lparr>files := fs\<rparr>) p) = Inr v
              \<and> fst (snd (load_voice d (w1\<lparr>files := fs\<rparr>) p)) = []))
   \<and> (cache w = [] \<and> distinct ps \<and> length ps = Suc (n_cache_voices d)
        \<and> (\<forall>p\<in>set ps. \<exists>t. torch_load w p = Inr t) \<longrightarrow>
        cache_keys (after_loads d w ps) = rev (tl ps))
   \<and> (cache w = [] \<and> distinct (qs @ [q]) \<and> length qs = n_cache_voices d \<and> 2 \<le> length qs
        \<and> (\<forall>p\<in>set (qs @ [q]). \<exists>t. torch_load w p = Inr t) \<longrightarrow>
        cache_keys (after_loads d w (qs @ [q])) = q # rev (tl qs)
        \<and> cache_keys (after_loads d w (qs @ [hd qs, q])) = q # hd qs # rev (tl (tl qs)))"
proof (intro conjI impI allI)
  assume "map_of (cache w) p = Some v"
  then show "fst (load_voice d w p) = Inr v" "fst (snd (load_voice d w p)) = []"
    by (simp_all add: load_voice_hit)
next
  fix fs
  assume a: "0 < n_cache_voices d \<and> load_voice d w p = (Inr v, evs, w1)"
  have cached: "map_of (cache w1) p = Some v"
  proof (cases "map_of (cache w) p")
    case None
    with a show ?thesis
      by (auto simp: load_voice_def lru_insert_def split: sum.splits)
  next
    case (Some v')
    with a show ?thesis by (auto simp: load_voice_def lru_touch_def)
  qed
  then have "map_of (cache (w1\<lparr>files := fs\<rparr>)) p = Some v" by simp
  then show "fst (load_voice d (w1\<lparr>files := fs\<rparr>) p) = Inr v"
    "fst (snd (load_voice d (w1\<lparr>files := fs\<rparr>) p)) = []"
    by (simp_all only: load_voice_hit fst_conv snd_conv)
next
  assume "cache w = [] \<and> distinct ps \<and> length ps = Suc (n_cache_voices d)
        \<and> (\<forall>p\<in>set ps. \<exists>t. torch_load w p = Inr t)"
  then show "cache_keys (after_loads d w ps) = rev (tl ps)"
    by (intro evict_oldest) simp_all
next
  assume a: "cache w = [] \<and> distinct (qs @ [q]) \<and> length qs = n_cache_voices d \<and> 2 \<le> length qs
        \<and> (\<forall>p\<in>set (qs @ [q]). \<exists>t. torch_load w p = Inr t)"
  then have "cache_keys (after_loads d w (qs @ [q])) = rev (tl (qs @ [q]))"
    by (intro evict_oldest) simp_all
  moreover from a have "qs \<noteq> []" by auto
  ultimately show "cache_keys (after_loads d w (qs @ [q])) = q # rev (tl qs)" by simp
  from a show "cache_keys (after_loads d w (qs @ [hd qs, q])) = q # hd qs # rev (tl (tl qs))"
    by (intro touch_changes_eviction) simp_all
qed

text \<open>
  Claim C8.  The voice cache is a memo table keyed by the exact path string, with the
  fixed capacity \<open>n_cache_voices\<close> (the setting; the source comment's 8 is its default).
  \<^item> A path that is cached is returned from the cache: the embedding is the cached one
    and storage is not read (no \<open>TorchLoad\<close> event).
  \<^item> So, with a capacity above zero, loading a path a second time right after a
    successful load returns the very embedding of the first load without reading
    storage, whatever the voice store holds by then.
  \<^item> Loading capacity + 1 distinct paths into an empty cache leaves all of them cached
    but the first one loaded, the least recently used.
  \<^item> A hit makes its entry the most recently used: after filling the cache with \<open>qs\<close>,
    loading a new path \<open>q\<close> evicts the first of \<open>qs\<close>; if the first of \<open>qs\<close> is loaded
    again before \<open>q\<close>, the second of \<open>qs\<close> is evicted instead.
  \<^item> In any state of the cache, a hit on any entry, wherever it stands, returns the
    cached embedding without reading storage and moves that entry to the front, the
    other entries keeping their order.
  \<^item> In any state, a miss reads storage once; if the load raises the cache is
    unchanged; otherwise the new entry goes to the front, and when the cache is full
    exactly its last entry, the least recently used, is dropped.
  \<^item> In both cases the cached paths afterwards are \<open>lru_use\<close> of the paths before; the
    paths stay distinct and never exceed the capacity; and after any sequence of loads
    that storage can serve, the cached paths are in the order \<open>lru_order\<close> of the
    specification's discipline.
\<close>

theorem load_voice_lru:
  "(map_of (cache w) p = Some v \<longrightarrow>
      fst (load_voice d w p) = Inr v \<and> fst (snd (load_voice d w p)) = [])
   \<and> (0 < n_cache_voices d \<and> load_voice d w p = (Inr v, evs, w1) \<longrightarrow>
        (\<forall>fs. fst (load_voice d (w1\<lparr>files := fs\<rparr>) p) = Inr v
              \<and> fst (snd (load_voice d (w1\<lparr>files := fs\<rparr>) p)) = []))
   \<and> (cache w = [] \<and> distinct ps \<and> length ps = Suc (n_cache_voices d)
        \<and> (\<forall>p\<in>set ps. \<exists>t. torch_load w p = Inr t) \<longrightarrow>
        cache_keys (after_loads d w ps) = rev (tl ps))
   \<and> (cache w = [] \<and> distinct (qs @ [q]) \<and> length qs = n_cache_voices d \<and> 2 \<le> length qs
        \<and> (\<forall>p\<in>set (qs @ [q]). \<exists>t. torch_load w p = Inr t) \<longrightarrow>
        cache_keys (after_loads d w (qs @ [q])) = q # rev (tl qs)
        \<and> cache_keys (after_loads d w (qs @ [hd qs, q])) = q # hd qs # rev (tl (tl qs)))
   \<and> (map_of (cache w) p = Some v \<longrightarrow>
        load_voice d w p =
          (Inr v, [], w\<lparr>cache := (p, v) # filter (\<lambda>kv. fst kv \<noteq> p) (cache w)\<rparr>))
   \<and> (map_of (cache w) p = None \<and> torch_load w p = Inl e \<longrightarrow>
        load_voice d w p = (Inl e, [TorchLoad p], w))
   \<and> (map_of (cache w) p = None \<and> torch_load w p = Inr t \<longrightarrow>
        load_voice d w p =
          (Inr t, [TorchLoad p],
           w\<lparr>cache := (if n_cache_voices d = 0 then cache w
                        else if n_cache_voices d \<le> length (cache w)
                        then (p, t) # butlast (cache w)
                        else (p, t) # cache w)\<rparr>))
   \<and> (p \<in> set (cache_keys w) \<longrightarrow>
        cache_keys (after_loads d w [p]) = p # filter (\<lambda>k. k \<noteq> p) (cache_keys w))
   \<and> (0 < n_cache_voices d \<and> n_cache_voices d \<le> length (cache w)
        \<and> p \<notin> set (cache_keys w) \<and> torch_load w p = Inr t \<longrightarrow>
        cache_keys (after_loads d w [p]) = p # butlast (cache_keys w))
   \<and> (distinct (cache_keys w) \<and> length (cache w) \<le> n_cache_voices d
        \<and> (p \<in> set (cache_keys w) \<or> (\<exists>t. torch_load w p = Inr t)) \<longrightarrow>
        cache_keys (after_loads d w [p]) = lru_use (n_cache_voices d) (cache_keys w) p)
   \<and> (distinct (cache_keys w) \<and> length (cache w) \<le> n_cache_voices d \<longrightarrow>
        distinct (cache_keys (after_loads d w rs))
        \<and> length (cache (after_loads d w rs)) \<le> n_cache_voices d)
   \<and> (distinct (cache_keys w) \<and> length (cache w) \<le> n_cache_voices d
        \<and> (\<forall>p\<in>set rs. \<exists>t. torch_load w p = Inr t) \<longrightarrow>
        cache_keys (after_loads d w rs) = lru_order (n_cache_voices d) (cache_keys w) rs)"
proof -
  note filled = lru_from_empty [of w p v d evs w1 ps qs q]
  have hit: "load_voice d w p =
          (Inr v, [], w\<lparr>cache := (p, v) # filter (\<lambda>kv. fst kv \<noteq> p) (cache w)\<rparr>)"
    if "map_of (cache w) p = Some v"
    using that by (simp add: load_voice_hit lru_touch_def)
  have err: "load_voice d w p = (Inl e, [TorchLoad p], w)"
    if "map_of (cache w) p = None \<and> torch_load w p = Inl e"
    using that by (simp add: load_voice_error_keeps_cache)
  have miss: "load_voice d w p =
          (Inr t, [TorchLoad p],
           w\<lparr>cache := (if n_cache_voices d = 0 then cache w
                        else if n_cache_voices d \<le> length (cache w)
                        then (p, t) # butlast (cache w)
                        else (p, t) # cache w)\<rparr>)"
    if "map_of (cache w) p = None \<and> torch_load w p = Inr t"
    using that by (simp add: load_voice_miss lru_insert_def)
  have hit_keys: "cache_keys (after_loads d w [p]) = p # filter (\<lambda>k. k \<noteq> p) (cache_keys w)"
    if "p \<in> set (cache_keys w)"
    using that by (rule load_hit_keys)
  have miss_keys: "cache_keys (after_loads d w [p]) = p # butlast (cache_keys w)"
    if "0 < n_cache_voices d \<and> n_cache_voices d \<le> length (cache w)
        \<and> p \<notin> set (cache_keys w) \<and> torch_load w p = Inr t"
    using that by (intro load_miss_full) simp_all
  have use: "cache_keys (after_loads d w [p]) = lru_use (n_cache_voices d) (cache_keys w) p"
    if "distinct (cache_keys w) \<and> length (cache w) \<le> n_cache_voices d
        \<and> (p \<in> set (cache_keys w) \<or> (\<exists>t. torch_load w p = Inr t))"
    using that load_voice_step_keys [of w d p] by simp
  have inv: "distinct (cache_keys (after_loads d w rs))
        \<and> length (cache (after_loads d w rs)) \<le> n_cache_voices d"
    if "distinct (cache_keys w) \<and> length (cache w) \<le> n_cache_voices d"
    using that by (intro after_loads_invariant) simp_all
  have order: "cache_keys (after_loads d w rs) = lru_order (n_cache_voices d) (cache_keys w) rs"
    if "distinct (cache_keys w) \<and> length (cache w) \<le> n_cache_voices d
        \<and> (\<forall>p\<in>set rs. \<exists>t. torch_load w p = Inr t)"
    using that by (intro after_loads_lru_order) simp_all
  show ?thesis
    apply (intro conjI)
               apply (rule filled [THEN conjunct1])
              apply (rule filled [THEN conjunct2, THEN conjunct1])
             apply (rule filled [THEN conjunct2, THEN conjunct2, THEN conjunct1])
            apply (rule filled [THEN conjunct2, THEN conjunct2, THEN conjunct2])
           apply (rule impI, erule hit)
          apply (rule impI, erule err)
         apply (rule impI, erule miss)
        apply (rule impI, erule hit_keys)
       apply (rule impI, erule miss_keys)
      apply (rule impI, erule use)
     apply (rule impI, erule inv)
    apply (rule impI, erule order)
    done
qed


theorem load_voice_lru_witness:
  "map_of (cache (stub_world\<lparr>cache := [(''v/a.pt'', FloatTensor [2, 2])]\<rparr>)) ''v/a.pt''
       = Some (FloatTensor [2, 2])
   \<and> fst (load_voice stub_deps (stub_world\<lparr>cache := [(''v/a.pt'', FloatTensor [2, 2])]\<rparr>)
            ''v/a.pt'') = Inr (FloatTensor [2, 2])
   \<and> fst (snd (load_voice stub_deps (stub_world\<lparr>cache := [(''v/a.pt'', FloatTensor [2, 2])]\<rparr>)
            ''v/a.pt'')) = []
   \<and> 0 < n_cache_voices stub_deps
   \<and> load_voice stub_deps stub_world ''v/a.pt''
       = (Inr (FloatTensor [2, 2]), [TorchLoad ''v/a.pt''],
          stub_world\<lparr>cache := [(''v/a.pt'', FloatTensor [2, 2])]\<rparr>)
   \<and> fst (load_voice stub_deps
            (stub_world\<lparr>cache := [(''v/a.pt'', FloatTensor [2, 2])], files := Map.empty\<rparr>)
            ''v/a.pt'') = Inr (FloatTensor [2, 2])
   \<and> fst (snd (load_voice stub_deps
            (stub_world\<lparr>cache := [(''v/a.pt'', FloatTensor [2, 2])], files := Map.empty\<rparr>)
            ''v/a.pt'')) = []
   \<and> cache stub_world = []
   \<and> distinct [''v/a.pt'', ''v/b.pt'', ''v/c.pt'']
   \<and> length [''v/a.pt'', ''v/b.pt'', ''v/c.pt''] = Suc (n_cache_voices stub_deps)
   \<and> torch_load stub_world ''v/a.pt'' = Inr (FloatTensor [2, 2])
   \<and> torch_load stub_world ''v/b.pt'' = Inr (FloatTensor [4, 4])
   \<and> torch_load stub_world ''v/c.pt'' = Inr (FloatTensor [6, 6])
   \<and> torch_load stub_world ''v/long.pt'' = Inr (FloatTensor [1, 2, 3])
   \<and> cache_keys (after_loads stub_deps stub_world [''v/a.pt'', ''v/b.pt'', ''v/c.pt''])
       = [''v/c.pt'', ''v/b.pt'']
   \<and> cache_keys (after_loads stub_deps stub_world [''v/a.pt'', ''v/b.pt'', ''v/a.pt'', ''v/c.pt''])
       = [''v/c.pt'', ''v/a.pt'']
   \<and> n_cache_voices stub_deps_three = 3
   \<and> load_voice stub_deps_three
         (stub_world\<lparr>cache := [(''v/c.pt'', FloatTensor [6, 6]), (''v/b.pt'', FloatTensor [4, 4]),
                                (''v/a.pt'', FloatTensor [2, 2])]\<rparr>) ''v/b.pt''
       = (Inr (FloatTensor [4, 4]), [],
          stub_world\<lparr>cache := [(''v/b.pt'', FloatTensor [4, 4]), (''v/c.pt'', FloatTensor [6, 6]),
                                 (''v/a.pt'', FloatTensor [2, 2])]\<rparr>)
   \<and> load_voice stub_deps_three
         (stub_world\<lparr>cache := [(''v/c.pt'', FloatTensor [6, 6]), (''v/b.pt'', FloatTensor [4, 4]),
                                (''v/a.pt'', FloatTensor [2, 2])]\<rparr>) ''v/long.pt''
       = (Inr (FloatTensor [1, 2, 3]), [TorchLoad ''v/long.pt''],
          stub_world\<lparr>cache := [(''v/long.pt'', FloatTensor [1, 2, 3]),
                                 (''v/c.pt'', FloatTensor [6, 6]),
                                 (''v/b.pt'', FloatTensor [4, 4])]\<rparr>)
   \<and> torch_load stub_world ''v/bad.pt'' = Inl (OtherException ''corrupt'')
   \<and> load_voice stub_deps stub_world ''v/bad.pt''
       = (Inl (OtherException ''corrupt''), [TorchLoad ''v/bad.pt''], stub_world)
   \<and> cache_keys (after_loads stub_deps_three stub_world
         [''v/a.pt'', ''v/b.pt'', ''v/c.pt'', ''v/b.pt'', ''v/long.pt'', ''v/a.pt'', ''v/b.pt''])
       = [''v/b.pt'', ''v/a.pt'', ''v/long.pt'']
   \<and> lru_order 3 []
         [''v/a.pt'', ''v/b.pt'', ''v/c.pt'', ''v/b.pt'', ''v/long.pt'', ''v/a.pt'', ''v/b.pt'']
       = [''v/b.pt'', ''v/a.pt'', ''v/long.pt'']"
  using load_voice_lru [where d = stub_deps
          and w = "stub_world\<lparr>cache := [(''v/a.pt'', FloatTensor [2, 2])]\<rparr>" and p = "''v/a.pt''"
          and v = "FloatTensor [2, 2]"]
        load_voice_lru [where d = stub_deps and w = stub_world and p = "''v/a.pt''"
          and v = "FloatTensor [2, 2]" and evs = "[TorchLoad ''v/a.pt'']"
          and ?w1.0 = "stub_world\<lparr>cache := [(''v/a.pt'', FloatTensor [2, 2])]\<rparr>"
          and ps = "[''v/a.pt'', ''v/b.pt'', ''v/c.pt'']"
          and qs = "[''v/a.pt'', ''v/b.pt'']" and q = "''v/c.pt''"]
        load_voice_lru [where d = stub_deps_three
          and w = "stub_world\<lparr>cache := [(''v/c.pt'', FloatTensor [6, 6]),
                     (''v/b.pt'', FloatTensor [4, 4]), (''v/a.pt'', FloatTensor [2, 2])]\<rparr>"
          and p = "''v/b.pt''" and v = "FloatTensor [4, 4]"]
        load_voice_lru [where d = stub_deps_three
          and w = "stub_world\<lparr>cache := [(''v/c.pt'', FloatTensor [6, 6]),
                     (''v/b.pt'', FloatTensor [4, 4]), (''v/a.pt'', FloatTensor [2, 2])]\<rparr>"
          and p = "''v/long.pt''" and t = "FloatTensor [1, 2, 3]"]
        load_voice_lru [where d = stub_deps and w = stub_world and p = "''v/bad.pt''"
          and e = "OtherException ''corrupt''"]
        load_voice_lru [where d = stub_deps_three and w = stub_world
          and rs = "[''v/a.pt'', ''v/b.pt'', ''v/c.pt'', ''v/b.pt'', ''v/long.pt'', ''v/a.pt'',
                     ''v/b.pt'']"]
  by (simp add: stub_deps_three_def stub_deps_def stub_world_def load_voice_def torch_load_def
        lru_insert_def lru_touch_def lru_order_def lru_use_def cache_keys_def)

section \<open>The non-streaming path\<close>

text \<open>A resolved voice path is never the empty string.\<close>

lemma os_path_join_nonempty: "b \<noteq> [] \<Longrightarrow> os_path_join a b \<noteq> []"
  by (simp add: os_path_join_def)

lemma get_voice_path_nonempty: "get_voice_path d w voice = Some p \<Longrightarrow> p \<noteq> []"
  by (auto simp: get_voice_path_def voice_file_def Let_def os_path_join_nonempty
           split: if_splits)

lemma preprocess_chunks_data:
  "fst (preprocess_chunks d voice chunks acc) =
     acc @ List.map_filter (\<lambda>c. map_option (Pair c) (chunk_tokens d voice c)) chunks"
proof (induction chunks arbitrary: acc)
  case Nil
  then show ?case by simp
next
  case (Cons c cs)
  show ?case
  proof (cases "fst (call_process_text d c voice)")
    case (Inl e)
    then show ?thesis
      by (cases "call_process_text d c voice")
         (simp add: Cons.IH chunk_tokens_def case_prod_beta)
  next
    case (Inr pt)
    then show ?thesis
      by (cases "call_process_text d c voice"; cases pt)
         (simp add: Cons.IH chunk_tokens_def case_prod_beta)
  qed
qed

lemma generate_chunks_audio:
  "fst (generate_chunks d voicepack speed chunks_data acc) =
     acc @ List.map_filter (\<lambda>ct. tokens_audio d voicepack speed (snd ct)) chunks_data"
proof (induction chunks_data arbitrary: acc)
  case Nil
  then show ?case by simp
next
  case (Cons ct cs)
  obtain c toks where ct: "ct = (c, toks)" by (cases ct)
  show ?case
  proof (cases "generate_from_tokens d toks voicepack speed")
    case (Inl e)
    then show ?thesis
      by (simp add: ct Cons.IH tokens_audio_def call_generate_from_tokens_def
            case_prod_beta)
  next
    case (Inr r)
    then show ?thesis
      by (cases r)
         (simp_all add: ct Cons.IH tokens_audio_def call_generate_from_tokens_def
            case_prod_beta)
  qed
qed

lemma surviving_two_phases:
  "List.map_filter (\<lambda>ct. tokens_audio d voicepack speed (snd ct))
     (List.map_filter (\<lambda>c. map_option (Pair c) (chunk_tokens d voice c)) chunks)
   = surviving d voice voicepack speed chunks"
  by (induction chunks)
     (auto simp: surviving_def chunk_audio_def split: option.splits)

lemma tokenized_empty_iff:
  "List.map_filter (\<lambda>c. map_option (Pair c) (chunk_tokens d voice c)) chunks = []
   \<longleftrightarrow> (\<forall>c\<in>set chunks. chunk_tokens d voice c = None)"
  by (induction chunks) (auto simp: split: option.splits)

lemma surviving_empty_iff:
  "surviving d voice voicepack speed chunks = []
   \<longleftrightarrow> (\<forall>c\<in>set chunks. chunk_audio d voice voicepack speed c = None)"
  by (induction chunks) (auto simp: surviving_def split: option.splits)

lemma internal_try_stitch:
  assumes "validated d w text voice voicepack evs0 w'"
  shows "fst (generate_audio_internal_try d w text voice speed True) =
     (let chunks = split_text d (normalize_text d text);
          audio_chunks = surviving d voice voicepack speed chunks
      in if \<forall>c\<in>set chunks. chunk_tokens d voice c = None
         then Inl (ValueError ''No chunks were processed successfully'')
         else if audio_chunks = []
         then Inl (ValueError ''No audio chunks were generated successfully'')
         else Inr (Some (if length audio_chunks > 1 then np_concatenate d audio_chunks
                         else audio_chunks ! 0)))"
proof -
  from assms obtain p where p: "get_voice_path d w voice = Some p"
    and l: "load_voice d w p = (Inr voicepack, evs0, w')"
    and t: "text \<noteq> []" "normalize_text d text \<noteq> []"
    by (auto simp: validated_def split: option.splits)
  have ne: "p \<noteq> []" using p by (rule get_voice_path_nonempty)
  let ?cs = "split_text d (normalize_text d text)"
  obtain cd evs1 where pc: "preprocess_chunks d voice ?cs [] = (cd, evs1)"
    by (cases "preprocess_chunks d voice ?cs []")
  obtain ac evs2 where gc: "generate_chunks d voicepack speed cd [] = (ac, evs2)"
    by (cases "generate_chunks d voicepack speed cd []")
  have cd: "cd = List.map_filter (\<lambda>c. map_option (Pair c) (chunk_tokens d voice c)) ?cs"
    using preprocess_chunks_data [of d voice ?cs "[]"] pc by simp
  have ac: "ac = surviving d voice voicepack speed ?cs"
    using generate_chunks_audio [of d voicepack speed cd "[]"] gc
    by (simp add: cd surviving_two_phases)
  have e: "(cd = []) = (\<forall>c\<in>set ?cs. chunk_tokens d voice c = None)"
    by (simp only: cd tokenized_empty_iff)
  show ?thesis
    using t ne e by (simp add: generate_audio_internal_try_def Let_def p l pc gc ac)
qed

lemma internal_fst:
  "fst (generate_audio_internal d w text voice speed stitch) =
   fst (generate_audio_internal_try d w text voice speed stitch)"
  by (simp add: generate_audio_internal_def split: prod.splits sum.splits)


lemma generate_audio_fst:
  "fst (generate_audio d w text voice speed stitch) =
   fst (generate_audio_internal d w text voice speed stitch)"
  by (simp add: generate_audio_def split: prod.splits)

text \<open>
  Claim C3.  In \<open>_generate_audio_internal\<close> with \<open>stitch_long_output = True\<close>, for a
  request that passes validation and in which at least one chunk survives tokenization
  and synthesis, the chunks that fail are skipped and nothing is raised: the result is
  built from \<open>audio_chunks\<close>, the buffers of the surviving chunks in the order of the
  chunks.  When exactly one buffer survives the result is that buffer itself (for any
  type \<open>'a\<close> of buffer objects: no operation is applied to it); when two or more survive
  it is \<open>numpy.concatenate\<close> of them in order.
\<close>

theorem stitch_returns_survivors:
  assumes "validated d w text voice voicepack evs0 w'"
    and "audio_chunks = surviving d voice voicepack speed (split_text d (normalize_text d text))"
    and "audio_chunks \<noteq> []"
  shows "(\<forall>a. audio_chunks = [a] \<longrightarrow>
            fst (generate_audio_internal d w text voice speed True) = Inr (Some a))
       \<and> (2 \<le> length audio_chunks \<longrightarrow>
            fst (generate_audio_internal d w text voice speed True)
              = Inr (Some (np_concatenate d audio_chunks)))"
proof -
  from assms(2,3) have some_tokens:
    "\<not> (\<forall>c\<in>set (split_text d (normalize_text d text)). chunk_tokens d voice c = None)"
    by (auto simp: surviving_empty_iff chunk_audio_def split: option.splits)
  have "fst (generate_audio_internal d w text voice speed True) =
          Inr (Some (if length audio_chunks > 1 then np_concatenate d audio_chunks
                     else audio_chunks ! 0))"
    using some_tokens assms(3)
    by (simp add: internal_fst internal_try_stitch [OF assms(1)] Let_def assms(2) [symmetric])
  then show ?thesis by auto
qed

theorem stitch_returns_survivors_witness:
  "validated stub_deps stub_world ''axb'' ''a'' (FloatTensor [2, 2]) [TorchLoad ''v/a.pt'']
     (stub_world\<lparr>cache := [(''v/a.pt'', FloatTensor [2, 2])]\<rparr>)
   \<and> surviving stub_deps ''a'' (FloatTensor [2, 2]) 1 (split_text stub_deps (normalize_text stub_deps ''axb''))
       = [[0, 97], [0, 98]]
   \<and> fst (generate_audio_internal stub_deps stub_world ''axb'' ''a'' 1 True)
       = Inr (Some [0, 97, 0, 98])
   \<and> validated stub_deps stub_world ''xqz'' ''a'' (FloatTensor [2, 2]) [TorchLoad ''v/a.pt'']
     (stub_world\<lparr>cache := [(''v/a.pt'', FloatTensor [2, 2])]\<rparr>)
   \<and> surviving stub_deps ''a'' (FloatTensor [2, 2]) 1 (split_text stub_deps (normalize_text stub_deps ''xqz''))
       = [[0, 113]]
   \<and> fst (generate_audio_internal stub_deps stub_world ''xqz'' ''a'' 1 True)
       = Inr (Some [0, 113])"
  using stitch_returns_survivors [where d = stub_deps and w = stub_world and ?text = "''axb''"
          and voice = "''a''" and voicepack = "FloatTensor [2, 2]" and ?evs0.0 = "[TorchLoad ''v/a.pt'']"
          and w' = "stub_world\<lparr>cache := [(''v/a.pt'', FloatTensor [2, 2])]\<rparr>" and speed = 1
          and audio_chunks = "[[0, 97], [0, 98]]"]
        stitch_returns_survivors [where d = stub_deps and w = stub_world and ?text = "''xqz''"
          and voice = "''a''" and voicepack = "FloatTensor [2, 2]" and ?evs0.0 = "[TorchLoad ''v/a.pt'']"
          and w' = "stub_world\<lparr>cache := [(''v/a.pt'', FloatTensor [2, 2])]\<rparr>" and speed = 1
          and audio_chunks = "[[0, 113]]"]
  by (simp add: validated_def get_voice_path_def voice_file_def os_path_join_def load_voice_def
        torch_load_def lru_insert_def surviving_def chunk_audio_def chunk_tokens_def
        tokens_audio_def call_process_text_def voice_first_def stub_deps_def stub_world_def)

text \<open>
  Claim C4.  In the non-streaming path with stitching, for a request that passes
  validation: if tokenization fails for every chunk the request fails with
  \<open>ValueError "No chunks were processed successfully"\<close>; if some chunk is tokenized but
  synthesis gives no audio (an exception or \<open>None\<close>) for every tokenized chunk, it fails
  with \<open>ValueError "No audio chunks were generated successfully"\<close>.  The error leaves
  both \<open>_generate_audio_internal\<close> and \<open>_generate_audio\<close>.
\<close>

theorem zero_survivors_abort:
  assumes "validated d w text voice voicepack evs0 w'"
    and "chunks = split_text d (normalize_text d text)"
  shows "((\<forall>c\<in>set chunks. chunk_tokens d voice c = None) \<longrightarrow>
            fst (generate_audio_internal d w text voice speed True)
              = Inl (ValueError ''No chunks were processed successfully'')
          \<and> fst (generate_audio d w text voice speed True)
              = Inl (ValueError ''No chunks were processed successfully''))
       \<and> ((\<exists>c\<in>set chunks. chunk_tokens d voice c \<noteq> None)
          \<and> (\<forall>c\<in>set chunks. \<forall>toks. chunk_tokens d voice c = Some toks
                \<longrightarrow> tokens_audio d voicepack speed toks = None) \<longrightarrow>
            fst (generate_audio_internal d w text voice speed True)
              = Inl (ValueError ''No audio chunks were generated successfully'')
          \<and> fst (generate_audio d w text voice speed True)
              = Inl (ValueError ''No audio chunks were generated successfully''))"
proof (intro conjI impI)
  assume "\<forall>c\<in>set chunks. chunk_tokens d voice c = None"
  then show "fst (generate_audio_internal d w text voice speed True)
              = Inl (ValueError ''No chunks were processed successfully'')"
    by (simp add: internal_fst internal_try_stitch [OF assms(1)] Let_def assms(2))
  then show "fst (generate_audio d w text voice speed True)
              = Inl (ValueError ''No chunks were processed successfully'')"
    by (simp add: generate_audio_fst)
next
  assume a: "(\<exists>c\<in>set chunks. chunk_tokens d voice c \<noteq> None)
          \<and> (\<forall>c\<in>set chunks. \<forall>toks. chunk_tokens d voice c = Some toks
                \<longrightarrow> tokens_audio d voicepack speed toks = None)"
  then have none: "surviving d voice voicepack speed chunks = []"
    by (auto simp: surviving_empty_iff chunk_audio_def split: option.splits)
  from a have some: "\<not> (\<forall>c\<in>set chunks. chunk_tokens d voice c = None)" by auto
  show "fst (generate_audio_internal d w text voice speed True)
              = Inl (ValueError ''No audio chunks were generated successfully'')"
    using none some
    by (simp add: internal_fst internal_try_stitch [OF assms(1)] Let_def assms(2))
  then show "fst (generate_audio d w text voice speed True)
              = Inl (ValueError ''No audio chunks were generated successfully'')"
    by (simp add: generate_audio_fst)
qed

theorem zero_survivors_abort_witness:
  "validated stub_deps stub_world ''xx'' ''a'' (FloatTensor [2, 2]) [TorchLoad ''v/a.pt'']
     (stub_world\<lparr>cache := [(''v/a.pt'', FloatTensor [2, 2])]\<rparr>)
   \<and> split_text stub_deps (normalize_text stub_deps ''xx'') = [''x'', ''x'']
   \<and> chunk_tokens stub_deps ''a'' ''x'' = None
   \<and> fst (generate_audio stub_deps stub_world ''xx'' ''a'' 1 True)
       = Inl (ValueError ''No chunks were processed successfully'')
   \<and> validated stub_deps stub_world ''xyz'' ''a'' (FloatTensor [2, 2]) [TorchLoad ''v/a.pt'']
     (stub_world\<lparr>cache := [(''v/a.pt'', FloatTensor [2, 2])]\<rparr>)
   \<and> split_text stub_deps (normalize_text stub_deps ''xyz'') = [''x'', ''y'', ''z'']
   \<and> chunk_tokens stub_deps ''a'' ''y'' = Some [1]
   \<and> tokens_audio stub_deps (FloatTensor [2, 2]) 1 [1] = None
   \<and> chunk_tokens stub_deps ''a'' ''z'' = Some [2]
   \<and> tokens_audio stub_deps (FloatTensor [2, 2]) 1 [2] = None
   \<and> fst (generate_audio stub_deps stub_world ''xyz'' ''a'' 1 True)
       = Inl (ValueError ''No audio chunks were generated successfully'')"
  using zero_survivors_abort [where d = stub_deps and w = stub_world and ?text = "''xx''"
          and voice = "''a''" and voicepack = "FloatTensor [2, 2]" and ?evs0.0 = "[TorchLoad ''v/a.pt'']"
          and w' = "stub_world\<lparr>cache := [(''v/a.pt'', FloatTensor [2, 2])]\<rparr>" and speed = 1
          and chunks = "[''x'', ''x'']"]
        zero_survivors_abort [where d = stub_deps and w = stub_world and ?text = "''xyz''"
          and voice = "''a''" and voicepack = "FloatTensor [2, 2]" and ?evs0.0 = "[TorchLoad ''v/a.pt'']"
          and w' = "stub_world\<lparr>cache := [(''v/a.pt'', FloatTensor [2, 2])]\<rparr>" and speed = 1
          and chunks = "[''x'', ''y'', ''z'']"]
  by (simp add: validated_def get_voice_path_def voice_file_def os_path_join_def load_voice_def
        torch_load_def lru_insert_def chunk_tokens_def
        tokens_audio_def call_process_text_def voice_first_def stub_deps_def stub_world_def)

section \<open>The streaming path\<close>

text \<open>Observations distribute over the concatenation of event lists.\<close>

lemma yields_simps [simp]:
  "yields [] = []" "yields (e # evs) = yield_bytes e @ yields evs"
  "yields (evs @ evs') = yields evs @ yields evs'"
  by (simp_all add: yields_def)

lemma encodings_simps [simp]:
  "encodings [] = []" "encodings (e # evs) = encoded e @ encodings evs"
  "encodings (evs @ evs') = encodings evs @ encodings evs'"
  by (simp_all add: encodings_def)

lemma cleanups_simps [simp]:
  "cleanups [] = 0" "cleanups (e # evs) = (if is_cleanup e then 1 else 0) + cleanups evs"
  "cleanups (evs @ evs') = cleanups evs + cleanups evs'"
  by (simp_all add: cleanups_def)

lemma load_voice_events:
  "fst (snd (load_voice d w p)) = [] \<or> fst (snd (load_voice d w p)) = [TorchLoad p]"
  by (simp add: load_voice_def split: option.splits sum.splits)

lemma call_process_text_events:
  "snd (call_process_text d c voice) = [] \<or>
   (\<exists>ch. snd (call_process_text d c voice) = [ProcessText c ch])"
  by (simp add: call_process_text_def split: sum.splits)

text \<open>One iteration of the streaming loop, by what the chunk comes to.\<close>

lemma stream_chunk_audio:
  assumes "chunk_audio d voice voicepack speed c = Some a"
  shows "\<exists>toks ch.
    stream_chunk d voice voicepack speed fmt c f n l =
      ([ProcessText c ch, GenerateFromTokens toks, ConvertAudio f l,
        Yield (fst (convert_audio d a 24000 fmt f n l))],
       True, snd (convert_audio d a 24000 fmt f n l))"
  using assms
  by (auto simp: chunk_audio_def chunk_tokens_def tokens_audio_def stream_chunk_def
        call_process_text_def call_generate_from_tokens_def case_prod_beta
      split: option.splits sum.splits prod.splits)

lemma stream_chunk_no_audio:
  assumes "chunk_audio d voice voicepack speed c = None"
  shows "fst (snd (stream_chunk d voice voicepack speed fmt c f n l)) = False
    \<and> snd (snd (stream_chunk d voice voicepack speed fmt c f n l)) = n
    \<and> encodings (fst (stream_chunk d voice voicepack speed fmt c f n l)) = []
    \<and> yields (fst (stream_chunk d voice voicepack speed fmt c f n l)) = []
    \<and> cleanups (fst (stream_chunk d voice voicepack speed fmt c f n l)) = 0"
  using assms
  by (auto simp: chunk_audio_def chunk_tokens_def tokens_audio_def stream_chunk_def
        call_process_text_def call_generate_from_tokens_def case_prod_beta
      split: option.splits sum.splits prod.splits)

lemma stream_chunk_yielded:
  "fst (snd (stream_chunk d voice voicepack speed fmt c f n l))
     = (chunk_audio d voice voicepack speed c \<noteq> None)"
proof (cases "chunk_audio d voice voicepack speed c")
  case None
  then show ?thesis by (simp add: stream_chunk_no_audio)
next
  case (Some a)
  from stream_chunk_audio [OF Some, of fmt f n l] show ?thesis by (auto simp: Some)
qed

lemma stream_chunk_encodings:
  "encodings (fst (stream_chunk d voice voicepack speed fmt c f n l))
     = (if chunk_audio d voice voicepack speed c \<noteq> None then [(f, l)] else [])"
proof (cases "chunk_audio d voice voicepack speed c")
  case None
  then show ?thesis by (simp add: stream_chunk_no_audio)
next
  case (Some a)
  from stream_chunk_audio [OF Some, of fmt f n l] show ?thesis by (auto simp: Some)
qed

lemma stream_chunk_yields:
  "length (yields (fst (stream_chunk d voice voicepack speed fmt c f n l)))
     = (if chunk_audio d voice voicepack speed c \<noteq> None then 1 else 0)"
proof (cases "chunk_audio d voice voicepack speed c")
  case None
  then show ?thesis by (simp add: stream_chunk_no_audio)
next
  case (Some a)
  from stream_chunk_audio [OF Some, of fmt f n l] show ?thesis by (auto simp: Some)
qed

lemma stream_chunk_cleanups:
  "cleanups (fst (stream_chunk d voice voicepack speed fmt c f n l)) = 0"
proof (cases "chunk_audio d voice voicepack speed c")
  case None
  then show ?thesis by (simp add: stream_chunk_no_audio)
next
  case (Some a)
  from stream_chunk_audio [OF Some, of fmt f n l] show ?thesis by (auto simp: Some)
qed

lemma stream_chunks_Nil [simp]:
  "stream_chunks d voice voicepack speed fmt [] f n cons = (False, [])"
  by (simp add: stream_chunks_def next_item_def)

lemma stream_chunks_Cons:
  "stream_chunks d voice voicepack speed fmt (c # cs) f n cons =
     (case stream_chunk d voice voicepack speed fmt c f n (cs = []) of
        (evs, yielded, n') \<Rightarrow>
          if yielded \<and> cons = CloseAfter 1 then (True, evs)
          else
           (case stream_chunks d voice voicepack speed fmt cs
                   (if yielded then False else f) n'
                   (if yielded then received cons else cons) of
              (was_closed, evs') \<Rightarrow> (was_closed, evs @ evs')))"
proof -
  have "(fst (next_item cs) = None) = (cs = [])"
    by (simp add: next_item_def split: list.splits)
  moreover have "next_item (c # cs) = (Some c, cs)"
    by (simp add: next_item_def)
  ultimately show ?thesis unfolding stream_chunks_def by simp
qed

lemma stream_chunks_cleanups:
  "cleanups (snd (stream_chunks d voice voicepack speed fmt cs f n cons)) = 0"
proof (induction cs arbitrary: f n cons)
  case Nil
  show ?case by simp
next
  case (Cons c cs)
  show ?case
    using stream_chunk_cleanups [of d voice voicepack speed fmt c f n "cs = []"]
    by (simp add: stream_chunks_Cons case_prod_beta Cons.IH)
qed

lemma stream_chunks_ReadAll:
  "fst (stream_chunks d voice voicepack speed fmt cs f n ReadAll) = False"
  by (induction cs arbitrary: f n) (simp_all add: stream_chunks_Cons case_prod_beta)

lemma stream_chunks_encodings:
  "encodings (snd (stream_chunks d voice voicepack speed fmt cs f n ReadAll))
     = stream_flags (\<lambda>c. chunk_audio d voice voicepack speed c \<noteq> None) f cs"
proof (induction cs arbitrary: f n)
  case Nil
  show ?case by simp
next
  case (Cons c cs)
  show ?case
    by (simp add: stream_chunks_Cons case_prod_beta Cons.IH stream_chunk_encodings
          stream_chunk_yielded)
qed

lemma stream_chunks_yields:
  "length (yields (snd (stream_chunks d voice voicepack speed fmt cs f n ReadAll)))
     = length (filter (\<lambda>c. chunk_audio d voice voicepack speed c \<noteq> None) cs)"
proof (induction cs arbitrary: f n)
  case Nil
  show ?case by simp
next
  case (Cons c cs)
  show ?case
    by (simp add: stream_chunks_Cons case_prod_beta Cons.IH stream_chunk_yields
          stream_chunk_yielded)
qed

text \<open>The flags of the encoder calls.\<close>

lemma stream_flags_length: "length (stream_flags ok f cs) = length (filter ok cs)"
  by (induction cs arbitrary: f) simp_all

lemma stream_flags_not_first: "x \<in> set (stream_flags ok False cs) \<Longrightarrow> \<not> fst x"
  by (induction cs) (auto split: if_splits)

lemma stream_flags_hd: "stream_flags ok f cs \<noteq> [] \<Longrightarrow> fst (hd (stream_flags ok f cs)) = f"
  by (induction cs) (auto split: if_splits)

lemma stream_flags_tl: "x \<in> set (tl (stream_flags ok f cs)) \<Longrightarrow> \<not> fst x"
  by (induction cs) (auto split: if_splits dest: stream_flags_not_first)

lemma stream_flags_last_fails:
  "cs \<noteq> [] \<Longrightarrow> \<not> ok (last cs) \<Longrightarrow> x \<in> set (stream_flags ok f cs) \<Longrightarrow> \<not> snd x"
  by (induction cs arbitrary: f) (auto split: if_splits)

lemma stream_flags_last_ok:
  "cs \<noteq> [] \<Longrightarrow> ok (last cs) \<Longrightarrow>
   stream_flags ok f cs \<noteq> [] \<and> snd (last (stream_flags ok f cs))"
  by (induction cs arbitrary: f) (auto split: if_splits)

lemma stream_flags_all_ok:
  "\<forall>c\<in>set cs. ok c \<Longrightarrow>
   stream_flags ok f cs = map (\<lambda>i. (f \<and> i = 0, Suc i = length cs)) [0..<length cs]"
proof (induction cs arbitrary: f)
  case Nil
  show ?case by simp
next
  case (Cons c cs)
  have "[0..<length (c # cs)] = 0 # map Suc [0..<length cs]"
    by (simp add: upt_conv_Cons map_Suc_upt del: upt_Suc)
  with Cons show ?case by (simp add: comp_def del: upt_Suc)
qed


lemma stream_flags_butlast:
  "x \<in> set (butlast (stream_flags ok f cs)) \<Longrightarrow> \<not> snd x"
proof (induction cs arbitrary: f)
  case Nil
  then show ?case by simp
next
  case (Cons c cs)
  show ?case
  proof (cases "ok c")
    case False
    with Cons show ?thesis by simp
  next
    case True
    show ?thesis
    proof (cases "stream_flags ok False cs = []")
      case True
      with \<open>ok c\<close> Cons.prems show ?thesis by simp
    next
      case False
      then have "cs \<noteq> []" by auto
      with \<open>ok c\<close> False Cons show ?thesis by auto
    qed
  qed
qed

text \<open>The whole generator, once the request has passed validation.\<close>

lemma load_voice_observed:
  assumes "load_voice d w p = (r, evs, w')"
  shows "encodings evs = []" "yields evs = []" "cleanups evs = 0"
    "filter is_save evs = []"
  using load_voice_events [of d w p] assms by auto

lemma stream_validated:
  assumes "validated d w text voice voicepack evs0 w'" and "cons \<noteq> CloseAfter 0"
  shows "generate_audio_stream d w text voice speed fmt cons =
     (if fst (stream_chunks d voice voicepack speed fmt (split_text d (normalize_text d text))
                True (AudioNormalizer d) cons)
      then Closed else Exhausted,
      evs0 @ snd (stream_chunks d voice voicepack speed fmt
                    (split_text d (normalize_text d text)) True (AudioNormalizer d) cons)
        @ [Cleanup False],
      w')"
proof -
  from assms obtain p where p: "get_voice_path d w voice = Some p"
    and l: "load_voice d w p = (Inr voicepack, evs0, w')"
    and t: "text \<noteq> []" "normalize_text d text \<noteq> []"
    by (auto simp: validated_def split: option.splits)
  have ne: "p \<noteq> []" using p by (rule get_voice_path_nonempty)
  show ?thesis
    using t ne assms(2)
    by (simp add: generate_audio_stream_def generate_audio_stream_try_def Let_def p l
          case_prod_beta)
qed

lemma validated_observed:
  assumes "validated d w text voice voicepack evs0 w'"
  shows "encodings evs0 = []" "yields evs0 = []" "cleanups evs0 = 0"
proof -
  from assms obtain p where "load_voice d w p = (Inr voicepack, evs0, w')"
    by (auto simp: validated_def split: option.splits)
  then show "encodings evs0 = []" "yields evs0 = []" "cleanups evs0 = 0"
    by (rule load_voice_observed)+
qed

lemma single_chunk_yields:
  assumes "chunk_audio d voice voicepack speed c = Some a"
  shows "yields (snd (stream_chunks d voice voicepack speed fmt [c] f n ReadAll))
           = [fst (convert_audio d a 24000 fmt f n True)]"
proof -
  from stream_chunk_audio [OF assms, of fmt f n True] obtain toks ch where
    "stream_chunk d voice voicepack speed fmt c f n True =
      ([ProcessText c ch, GenerateFromTokens toks, ConvertAudio f True,
        Yield (fst (convert_audio d a 24000 fmt f n True))],
       True, snd (convert_audio d a 24000 fmt f n True))" by blast
  then show ?thesis by (simp add: stream_chunks_Cons)
qed

text \<open>
  Claim C2.  For a streaming request that passes validation, is read to the end, and in
  which every chunk is tokenized and synthesized to audio: the generator is exhausted
  normally, it yields one byte string per chunk, and chunk number \<open>i\<close> (from 0) of \<open>n\<close> is
  encoded with \<open>is_first_chunk = (i = 0)\<close> and \<open>is_last_chunk = (i + 1 = n)\<close>.  So the first
  chunk is tagged first, the last is tagged last, every other chunk has both flags false,
  and the only chunk of a single-chunk stream has both flags true: the single byte string
  yielded is what the encoder returns for the chunk's audio with both flags true.
\<close>

theorem stream_positions:
  assumes "validated d w text voice voicepack evs0 w'"
    and "chunks = split_text d (normalize_text d text)"
    and "\<forall>c\<in>set chunks. chunk_audio d voice voicepack speed c \<noteq> None"
    and "generate_audio_stream d w text voice speed fmt ReadAll = (r, evs, w'')"
  shows "r = Exhausted
       \<and> length (yields evs) = length chunks
       \<and> encodings evs = map (\<lambda>i. (i = 0, Suc i = length chunks)) [0..<length chunks]
       \<and> (length chunks = 1 \<longrightarrow> encodings evs = [(True, True)])
       \<and> (\<forall>c a. chunks = [c] \<and> chunk_audio d voice voicepack speed c = Some a \<longrightarrow>
            yields evs = [fst (convert_audio d a 24000 fmt True (AudioNormalizer d) True)])"
proof -
  let ?run = "stream_chunks d voice voicepack speed fmt chunks True (AudioNormalizer d) ReadAll"
  from stream_validated [OF assms(1), of ReadAll speed fmt] assms(2,4)
  have r: "r = Exhausted" and evs: "evs = evs0 @ snd ?run @ [Cleanup False]"
    by (simp_all add: stream_chunks_ReadAll)
  have y: "length (yields evs) = length chunks"
    using assms(3)
    by (simp add: evs validated_observed [OF assms(1)] stream_chunks_yields)
  have "encodings evs = stream_flags (\<lambda>c. chunk_audio d voice voicepack speed c \<noteq> None)
                          True chunks"
    by (simp add: evs validated_observed [OF assms(1)] stream_chunks_encodings)
  also have "\<dots> = map (\<lambda>i. (True \<and> i = 0, Suc i = length chunks)) [0..<length chunks]"
    using assms(3) by (rule stream_flags_all_ok)
  finally have e: "encodings evs = map (\<lambda>i. (i = 0, Suc i = length chunks)) [0..<length chunks]"
    by simp
  have one: "yields evs = [fst (convert_audio d a 24000 fmt True (AudioNormalizer d) True)]"
    if "chunks = [c]" "chunk_audio d voice voicepack speed c = Some a" for c a
    using single_chunk_yields [OF that(2), of fmt True "AudioNormalizer d"]
    by (simp add: evs validated_observed [OF assms(1)] that(1))
  from r y e one show ?thesis by simp
qed

theorem stream_positions_witness:
  "validated stub_deps stub_world ''abc'' ''a'' (FloatTensor [2, 2]) [TorchLoad ''v/a.pt'']
     (stub_world\<lparr>cache := [(''v/a.pt'', FloatTensor [2, 2])]\<rparr>)
   \<and> split_text stub_deps (normalize_text stub_deps ''abc'') = [''a'', ''b'', ''c'']
   \<and> chunk_audio stub_deps ''a'' (FloatTensor [2, 2]) 1 ''a'' = Some [0, 97]
   \<and> chunk_audio stub_deps ''a'' (FloatTensor [2, 2]) 1 ''b'' = Some [0, 98]
   \<and> chunk_audio stub_deps ''a'' (FloatTensor [2, 2]) 1 ''c'' = Some [0, 99]
   \<and> fst (generate_audio_stream stub_deps stub_world ''abc'' ''a'' 1 ''wav'' ReadAll) = Exhausted
   \<and> encodings (fst (snd (generate_audio_stream stub_deps stub_world ''abc'' ''a'' 1 ''wav'' ReadAll)))
       = [(True, False), (False, False), (False, True)]
   \<and> yields (fst (snd (generate_audio_stream stub_deps stub_world ''abc'' ''a'' 1 ''wav'' ReadAll)))
       = [[1, 0], [0, 0], [0, 1]]
   \<and> validated stub_deps stub_world ''a'' ''a'' (FloatTensor [2, 2]) [TorchLoad ''v/a.pt'']
     (stub_world\<lparr>cache := [(''v/a.pt'', FloatTensor [2, 2])]\<rparr>)
   \<and> length (split_text stub_deps (normalize_text stub_deps ''a'')) = 1
   \<and> encodings (fst (snd (generate_audio_stream stub_deps stub_world ''a'' ''a'' 1 ''wav'' ReadAll)))
       = [(True, True)]
   \<and> yields (fst (snd (generate_audio_stream stub_deps stub_world ''a'' ''a'' 1 ''wav'' ReadAll)))
       = [[1, 1]]"
  using stream_positions [where d = stub_deps and w = stub_world and ?text = "''abc''"
          and voice = "''a''" and voicepack = "FloatTensor [2, 2]" and ?evs0.0 = "[TorchLoad ''v/a.pt'']"
          and w' = "stub_world\<lparr>cache := [(''v/a.pt'', FloatTensor [2, 2])]\<rparr>" and speed = 1
          and fmt = "''wav''" and chunks = "[''a'', ''b'', ''c'']"
          and r = "fst (generate_audio_stream stub_deps stub_world ''abc'' ''a'' 1 ''wav'' ReadAll)"
          and evs = "fst (snd (generate_audio_stream stub_deps stub_world ''abc'' ''a'' 1 ''wav'' ReadAll))"
          and w'' = "snd (snd (generate_audio_stream stub_deps stub_world ''abc'' ''a'' 1 ''wav'' ReadAll))"]
        stream_positions [where d = stub_deps and w = stub_world and ?text = "''a''"
          and voice = "''a''" and voicepack = "FloatTensor [2, 2]" and ?evs0.0 = "[TorchLoad ''v/a.pt'']"
          and w' = "stub_world\<lparr>cache := [(''v/a.pt'', FloatTensor [2, 2])]\<rparr>" and speed = 1
          and fmt = "''wav''" and chunks = "[''a'']"
          and r = "fst (generate_audio_stream stub_deps stub_world ''a'' ''a'' 1 ''wav'' ReadAll)"
          and evs = "fst (snd (generate_audio_stream stub_deps stub_world ''a'' ''a'' 1 ''wav'' ReadAll))"
          and w'' = "snd (snd (generate_audio_stream stub_deps stub_world ''a'' ''a'' 1 ''wav'' ReadAll))"]
  by (simp add: validated_def get_voice_path_def voice_file_def os_path_join_def load_voice_def
        torch_load_def lru_insert_def chunk_audio_def chunk_tokens_def
        tokens_audio_def call_process_text_def voice_first_def stub_deps_def stub_world_def
        generate_audio_stream_def generate_audio_stream_try_def stream_chunks_def next_item_def
        stream_chunk_def call_generate_from_tokens_def)

text \<open>
  Claim C9.  In \<open>generate_audio_stream\<close>, for a request that passes validation and is read
  to the end, \<open>is_first\<close> is cleared only after bytes were yielded and \<open>is_last_chunk\<close>
  depends only on the position of the chunk in the chunker's sequence:
  \<^item> if the first text chunk soft-fails (gives no audio) and some chunk is encoded at
    all, the first encoded chunk still has \<open>is_first_chunk = True\<close>;
  \<^item> every later encoded chunk has \<open>is_first_chunk = False\<close>;
  \<^item> if the final text chunk soft-fails, no encoded chunk has \<open>is_last_chunk = True\<close>;
  \<^item> if the final text chunk gives audio, the last encoded chunk has
    \<open>is_last_chunk = True\<close>; no encoded chunk but the last one ever has it;
  \<^item> each encoded chunk is yielded: there are as many byte strings as encoder calls.
\<close>

theorem first_and_last_flags:
  assumes "validated d w text voice voicepack evs0 w'"
    and "chunks = split_text d (normalize_text d text)"
    and "generate_audio_stream d w text voice speed fmt ReadAll = (r, evs, w'')"
  shows "(chunks \<noteq> [] \<and> chunk_audio d voice voicepack speed (hd chunks) = None
            \<and> encodings evs \<noteq> [] \<longrightarrow> fst (hd (encodings evs)))
       \<and> (\<forall>x\<in>set (tl (encodings evs)). \<not> fst x)
       \<and> (chunks \<noteq> [] \<and> chunk_audio d voice voicepack speed (last chunks) = None \<longrightarrow>
            (\<forall>x\<in>set (encodings evs). \<not> snd x))
       \<and> (chunks \<noteq> [] \<and> chunk_audio d voice voicepack speed (last chunks) \<noteq> None \<longrightarrow>
            encodings evs \<noteq> [] \<and> snd (last (encodings evs)))
       \<and> (\<forall>x\<in>set (butlast (encodings evs)). \<not> snd x)
       \<and> length (yields evs) = length (encodings evs)"
proof -
  let ?ok = "\<lambda>c. chunk_audio d voice voicepack speed c \<noteq> None"
  let ?run = "stream_chunks d voice voicepack speed fmt chunks True (AudioNormalizer d) ReadAll"
  from stream_validated [OF assms(1), of ReadAll speed fmt] assms(2,3)
  have evs: "evs = evs0 @ snd ?run @ [Cleanup False]"
    by (simp add: stream_chunks_ReadAll)
  have e: "encodings evs = stream_flags ?ok True chunks"
    by (simp add: evs validated_observed [OF assms(1)] stream_chunks_encodings)
  have y: "length (yields evs) = length (encodings evs)"
    by (simp add: evs validated_observed [OF assms(1)] stream_chunks_encodings
          stream_chunks_yields stream_flags_length)
  show ?thesis
    unfolding e
  proof (intro conjI impI ballI)
    assume "chunks \<noteq> [] \<and> chunk_audio d voice voicepack speed (hd chunks) = None
            \<and> stream_flags ?ok True chunks \<noteq> []"
    then show "fst (hd (stream_flags ?ok True chunks))" by (simp add: stream_flags_hd)
  next
    fix x assume "x \<in> set (tl (stream_flags ?ok True chunks))"
    then show "\<not> fst x" by (rule stream_flags_tl)
  next
    fix x
    assume "chunks \<noteq> [] \<and> chunk_audio d voice voicepack speed (last chunks) = None"
      and "x \<in> set (stream_flags ?ok True chunks)"
    then show "\<not> snd x" using stream_flags_last_fails [of chunks ?ok x True] by simp
  next
    assume a: "chunks \<noteq> [] \<and> chunk_audio d voice voicepack speed (last chunks) \<noteq> None"
    then show "stream_flags ?ok True chunks \<noteq> []"
      using stream_flags_last_ok [of chunks ?ok True] by simp
    from a show "snd (last (stream_flags ?ok True chunks))"
      using stream_flags_last_ok [of chunks ?ok True] by simp
  next
    fix x assume "x \<in> set (butlast (stream_flags ?ok True chunks))"
    then show "\<not> snd x" by (rule stream_flags_butlast)
  next
    show "length (yields evs) = length (stream_flags ?ok True chunks)"
      using y by (simp only: e)
  qed
qed

theorem first_and_last_flags_witness:
  "validated stub_deps stub_world ''xabz'' ''a'' (FloatTensor [2, 2]) [TorchLoad ''v/a.pt'']
     (stub_world\<lparr>cache := [(''v/a.pt'', FloatTensor [2, 2])]\<rparr>)
   \<and> split_text stub_deps (normalize_text stub_deps ''xabz'') = [''x'', ''a'', ''b'', ''z'']
   \<and> chunk_audio stub_deps ''a'' (FloatTensor [2, 2]) 1 (hd [''x'', ''a'', ''b'', ''z'']) = None
   \<and> chunk_audio stub_deps ''a'' (FloatTensor [2, 2]) 1 (last [''x'', ''a'', ''b'', ''z'']) = None
   \<and> encodings (fst (snd (generate_audio_stream stub_deps stub_world ''xabz'' ''a'' 1 ''wav'' ReadAll)))
       = [(True, False), (False, False)]
   \<and> yields (fst (snd (generate_audio_stream stub_deps stub_world ''xabz'' ''a'' 1 ''wav'' ReadAll)))
       = [[1, 0], [0, 0]]
   \<and> validated stub_deps stub_world ''xab'' ''a'' (FloatTensor [2, 2]) [TorchLoad ''v/a.pt'']
     (stub_world\<lparr>cache := [(''v/a.pt'', FloatTensor [2, 2])]\<rparr>)
   \<and> split_text stub_deps (normalize_text stub_deps ''xab'') = [''x'', ''a'', ''b'']
   \<and> chunk_audio stub_deps ''a'' (FloatTensor [2, 2]) 1 (last [''x'', ''a'', ''b'']) \<noteq> None
   \<and> encodings (fst (snd (generate_audio_stream stub_deps stub_world ''xab'' ''a'' 1 ''wav'' ReadAll)))
       = [(True, False), (False, True)]"
  using first_and_last_flags [where d = stub_deps and w = stub_world and ?text = "''xabz''"
          and voice = "''a''" and voicepack = "FloatTensor [2, 2]" and ?evs0.0 = "[TorchLoad ''v/a.pt'']"
          and w' = "stub_world\<lparr>cache := [(''v/a.pt'', FloatTensor [2, 2])]\<rparr>" and speed = 1
          and fmt = "''wav''" and chunks = "[''x'', ''a'', ''b'', ''z'']"
          and r = "fst (generate_audio_stream stub_deps stub_world ''xabz'' ''a'' 1 ''wav'' ReadAll)"
          and evs = "fst (snd (generate_audio_stream stub_deps stub_world ''xabz'' ''a'' 1 ''wav'' ReadAll))"
          and w'' = "snd (snd (generate_audio_stream stub_deps stub_world ''xabz'' ''a'' 1 ''wav'' ReadAll))"]
        first_and_last_flags [where d = stub_deps and w = stub_world and ?text = "''xab''"
          and voice = "''a''" and voicepack = "FloatTensor [2, 2]" and ?evs0.0 = "[TorchLoad ''v/a.pt'']"
          and w' = "stub_world\<lparr>cache := [(''v/a.pt'', FloatTensor [2, 2])]\<rparr>" and speed = 1
          and fmt = "''wav''" and chunks = "[''x'', ''a'', ''b'']"
          and r = "fst (generate_audio_stream stub_deps stub_world ''xab'' ''a'' 1 ''wav'' ReadAll)"
          and evs = "fst (snd (generate_audio_stream stub_deps stub_world ''xab'' ''a'' 1 ''wav'' ReadAll))"
          and w'' = "snd (snd (generate_audio_stream stub_deps stub_world ''xab'' ''a'' 1 ''wav'' ReadAll))"]
  by (simp add: validated_def get_voice_path_def voice_file_def os_path_join_def load_voice_def
        torch_load_def lru_insert_def chunk_audio_def chunk_tokens_def
        tokens_audio_def call_process_text_def voice_first_def stub_deps_def stub_world_def
        generate_audio_stream_def generate_audio_stream_try_def stream_chunks_def next_item_def
        stream_chunk_def call_generate_from_tokens_def)

text \<open>What the loop logs for a failing chunk stays in the events of the whole stream.\<close>

lemma stream_chunk_logs_tokenize:
  assumes "fst (call_process_text d c voice) = Inl e"
  shows "LogError (''Failed to generate audio for chunk: '' @ quoted c @ ''. Error: '' @ str_exn e)
           \<in> set (fst (stream_chunk d voice voicepack speed fmt c f n l))"
  using assms by (cases "call_process_text d c voice") (simp add: stream_chunk_def)

lemma stream_chunk_logs_no_audio:
  assumes "chunk_tokens d voice c = Some toks"
    and "generate_from_tokens d toks voicepack speed = Inr None"
  shows "LogError (''No audio generated for chunk: '' @ quoted c)
           \<in> set (fst (stream_chunk d voice voicepack speed fmt c f n l))"
  using assms
  by (cases "call_process_text d c voice")
     (auto simp: stream_chunk_def chunk_tokens_def call_generate_from_tokens_def
           split: sum.splits)

lemma stream_chunks_keeps_events:
  assumes "c \<in> set cs"
    and "\<And>f n l. ev \<in> set (fst (stream_chunk d voice voicepack speed fmt c f n l))"
  shows "ev \<in> set (snd (stream_chunks d voice voicepack speed fmt cs f n ReadAll))"
  using assms(1)
proof (induction cs arbitrary: f n)
  case Nil
  then show ?case by simp
next
  case (Cons c' cs)
  show ?case
  proof (cases "c = c'")
    case True
    with assms(2) [of f n "cs = []"] show ?thesis
      by (simp add: stream_chunks_Cons case_prod_beta)
  next
    case False
    with Cons show ?thesis by (simp add: stream_chunks_Cons case_prod_beta)
  qed
qed

text \<open>
  Claim C1, as stated, fails: the claim says that an exception of the tokenize operation
  propagates to the consumer and ends the stream.  Here tokenization raises on the chunk
  \<open>x\<close>, the first of the two chunks of the text \<open>xb\<close>; the generator is nevertheless
  exhausted normally, nothing is raised, and the bytes of the chunk \<open>b\<close> are yielded.
\<close>

theorem tokenize_error_ends_stream_counterexample:
  "fst (call_process_text stub_deps ''x'' ''a'') = Inl (OtherException ''bad chunk'')
   \<and> split_text stub_deps (normalize_text stub_deps ''xb'') = [''x'', ''b'']
   \<and> fst (generate_audio_stream stub_deps stub_world ''xb'' ''a'' 1 ''wav'' ReadAll) = Exhausted
   \<and> fst (generate_audio_stream stub_deps stub_world ''xb'' ''a'' 1 ''wav'' ReadAll)
       \<noteq> Raised (OtherException ''bad chunk'')
   \<and> yields (fst (snd (generate_audio_stream stub_deps stub_world ''xb'' ''a'' 1 ''wav'' ReadAll)))
       = [[1, 1]]"
  by (simp add: get_voice_path_def voice_file_def os_path_join_def load_voice_def
        torch_load_def lru_insert_def call_process_text_def voice_first_def stub_deps_def
        stub_world_def generate_audio_stream_def generate_audio_stream_try_def stream_chunks_def
        next_item_def stream_chunk_def call_generate_from_tokens_def)

text \<open>
  Claim C1, amended.  In \<open>generate_audio_stream\<close>, for a request that passes validation
  and is read to the end, no failure of a chunk ends the stream: the generator is
  exhausted normally and yields one byte string for every chunk that gives audio,
  wherever the failing chunks are.  An exception raised by the tokenize operation for a
  chunk is caught in the loop and logged (\<open>Failed to generate audio for chunk\<close>), and the
  chunk is skipped; a synthesize result of no audio is logged
  (\<open>No audio generated for chunk\<close>) and skipped.
\<close>

theorem chunk_failures_are_contained:
  assumes "validated d w text voice voicepack evs0 w'"
    and "chunks = split_text d (normalize_text d text)"
    and "generate_audio_stream d w text voice speed fmt ReadAll = (r, evs, w'')"
  shows "r = Exhausted
       \<and> length (yields evs)
           = length (filter (\<lambda>c. chunk_audio d voice voicepack speed c \<noteq> None) chunks)
       \<and> (\<forall>c\<in>set chunks. \<forall>e. fst (call_process_text d c voice) = Inl e \<longrightarrow>
             LogError (''Failed to generate audio for chunk: '' @ quoted c
                        @ ''. Error: '' @ str_exn e) \<in> set evs)
       \<and> (\<forall>c\<in>set chunks. \<forall>toks. chunk_tokens d voice c = Some toks
               \<and> generate_from_tokens d toks voicepack speed = Inr None \<longrightarrow>
             LogError (''No audio generated for chunk: '' @ quoted c) \<in> set evs)"
proof -
  let ?run = "stream_chunks d voice voicepack speed fmt chunks True (AudioNormalizer d) ReadAll"
  from stream_validated [OF assms(1), of ReadAll speed fmt] assms(2,3)
  have r: "r = Exhausted" and evs: "evs = evs0 @ snd ?run @ [Cleanup False]"
    by (simp_all add: stream_chunks_ReadAll)
  have y: "length (yields evs)
           = length (filter (\<lambda>c. chunk_audio d voice voicepack speed c \<noteq> None) chunks)"
    by (simp add: evs validated_observed [OF assms(1)] stream_chunks_yields)
  have t: "LogError (''Failed to generate audio for chunk: '' @ quoted c
                        @ ''. Error: '' @ str_exn e) \<in> set evs"
    if "c \<in> set chunks" "fst (call_process_text d c voice) = Inl e" for c e
  proof -
    have "LogError (''Failed to generate audio for chunk: '' @ quoted c
                        @ ''. Error: '' @ str_exn e) \<in> set (snd ?run)"
      using that(1) by (rule stream_chunks_keeps_events) (rule stream_chunk_logs_tokenize [OF that(2)])
    then show ?thesis by (simp add: evs)
  qed
  have s: "LogError (''No audio generated for chunk: '' @ quoted c) \<in> set evs"
    if "c \<in> set chunks" "chunk_tokens d voice c = Some toks"
       "generate_from_tokens d toks voicepack speed = Inr None" for c toks
  proof -
    have "LogError (''No audio generated for chunk: '' @ quoted c) \<in> set (snd ?run)"
      using that(1)
      by (rule stream_chunks_keeps_events) (rule stream_chunk_logs_no_audio [OF that(2,3)])
    then show ?thesis by (simp add: evs)
  qed
  from r y t s show ?thesis by blast
qed

theorem chunk_failures_are_contained_witness:
  "validated stub_deps stub_world ''xzb'' ''a'' (FloatTensor [2, 2]) [TorchLoad ''v/a.pt'']
     (stub_world\<lparr>cache := [(''v/a.pt'', FloatTensor [2, 2])]\<rparr>)
   \<and> split_text stub_deps (normalize_text stub_deps ''xzb'') = [''x'', ''z'', ''b'']
   \<and> fst (call_process_text stub_deps ''x'' ''a'') = Inl (OtherException ''bad chunk'')
   \<and> chunk_tokens stub_deps ''a'' ''z'' = Some [2]
   \<and> generate_from_tokens stub_deps [2] (FloatTensor [2, 2]) 1 = Inr None
   \<and> fst (generate_audio_stream stub_deps stub_world ''xzb'' ''a'' 1 ''wav'' ReadAll) = Exhausted
   \<and> yields (fst (snd (generate_audio_stream stub_deps stub_world ''xzb'' ''a'' 1 ''wav'' ReadAll)))
       = [[1, 1]]
   \<and> LogError (''Failed to generate audio for chunk: '' @ quoted ''x'' @ ''. Error: bad chunk'')
       \<in> set (fst (snd (generate_audio_stream stub_deps stub_world ''xzb'' ''a'' 1 ''wav'' ReadAll)))
   \<and> LogError (''No audio generated for chunk: '' @ quoted ''z'')
       \<in> set (fst (snd (generate_audio_stream stub_deps stub_world ''xzb'' ''a'' 1 ''wav'' ReadAll)))"
  using chunk_failures_are_contained [where d = stub_deps and w = stub_world and ?text = "''xzb''"
          and voice = "''a''" and voicepack = "FloatTensor [2, 2]" and ?evs0.0 = "[TorchLoad ''v/a.pt'']"
          and w' = "stub_world\<lparr>cache := [(''v/a.pt'', FloatTensor [2, 2])]\<rparr>" and speed = 1
          and fmt = "''wav''" and chunks = "[''x'', ''z'', ''b'']"
          and r = "fst (generate_audio_stream stub_deps stub_world ''xzb'' ''a'' 1 ''wav'' ReadAll)"
          and evs = "fst (snd (generate_audio_stream stub_deps stub_world ''xzb'' ''a'' 1 ''wav'' ReadAll))"
          and w'' = "snd (snd (generate_audio_stream stub_deps stub_world ''xzb'' ''a'' 1 ''wav'' ReadAll))"]
  by (simp add: validated_def get_voice_path_def voice_file_def os_path_join_def load_voice_def
        torch_load_def lru_insert_def chunk_audio_def chunk_tokens_def
        tokens_audio_def call_process_text_def voice_first_def stub_deps_def stub_world_def
        generate_audio_stream_def generate_audio_stream_try_def stream_chunks_def next_item_def
        stream_chunk_def call_generate_from_tokens_def quoted_def)

section \<open>Calls of the housekeeping hook\<close>

text \<open>
  The loops and the loader never call \<open>cleanup\<close>; the body of \<open>_generate_audio_internal\<close>
  calls it once, with \<open>verbose=True\<close>, at the end of the branch without stitching.
\<close>

lemma call_process_text_cleanups [simp]: "cleanups (snd (call_process_text d c voice)) = 0"
  by (simp add: call_process_text_def split: sum.splits)

lemma load_voice_cleanups [simp]: "cleanups (fst (snd (load_voice d w p))) = 0"
  using load_voice_events [of d w p] by auto

lemma preprocess_chunks_cleanups [simp]:
  "cleanups (snd (preprocess_chunks d voice chunks acc)) = 0"
proof (induction chunks arbitrary: acc)
  case Nil
  show ?case by simp
next
  case (Cons c cs)
  show ?case
    by (cases "call_process_text d c voice")
       (auto simp: Cons.IH case_prod_beta split: sum.splits
             dest: arg_cong [where f = "\<lambda>x. cleanups (snd x)"])
qed

lemma generate_chunks_cleanups [simp]:
  "cleanups (snd (generate_chunks d voicepack speed chunks_data acc)) = 0"
proof (induction chunks_data arbitrary: acc)
  case Nil
  show ?case by simp
next
  case (Cons ct cs)
  obtain c toks where ct: "ct = (c, toks)" by (cases ct)
  show ?case
    by (simp add: ct Cons.IH call_generate_from_tokens_def case_prod_beta
          split: sum.splits option.splits)
qed

lemma internal_try_cleanups:
  "cleanups (fst (snd (generate_audio_internal_try d w text voice speed stitch)))
     = (case fst (generate_audio_internal_try d w text voice speed stitch) of
          Inl e \<Rightarrow> 0
        | Inr audio \<Rightarrow> if stitch then 0 else 1)"
  by (simp add: generate_audio_internal_try_def Let_def case_prod_beta
        call_generate_from_tokens_def
      split: option.splits sum.splits)

lemma generate_audio_events:
  "fst (snd (generate_audio d w text voice speed stitch)) =
     fst (snd (generate_audio_internal_try d w text voice speed stitch))
     @ (case fst (generate_audio_internal_try d w text voice speed stitch) of
          Inl e \<Rightarrow> [LogError (''Error in audio generation: '' @ str_exn e)]
        | Inr audio \<Rightarrow> [])
     @ [Cleanup False]"
  by (simp add: generate_audio_def generate_audio_internal_def case_prod_beta
      split: sum.splits prod.splits)

lemma stream_try_cleanups:
  "cleanups (fst (snd (generate_audio_stream_try d w text voice speed fmt cons))) = 0"
  by (simp add: generate_audio_stream_try_def Let_def case_prod_beta stream_chunks_cleanups
      split: option.splits sum.splits)

lemma generate_audio_stream_events:
  assumes "cons \<noteq> CloseAfter 0"
  shows "fst (snd (generate_audio_stream d w text voice speed fmt cons)) =
     fst (snd (generate_audio_stream_try d w text voice speed fmt cons))
     @ (case fst (generate_audio_stream_try d w text voice speed fmt cons) of
          Inl e \<Rightarrow> [LogError (''Error in audio generation stream: '' @ str_exn e)]
        | Inr was_closed \<Rightarrow> [])
     @ [Cleanup False]"
    and "fst (generate_audio_stream d w text voice speed fmt cons) \<noteq> NotStarted"
  using assms
  by (simp_all add: generate_audio_stream_def case_prod_beta split: sum.splits prod.splits)

text \<open>
  Claim C6, as stated, fails: the claim says that \<open>cleanup\<close> runs exactly once per
  request on every exit path.  A non-streaming call with \<open>stitch_long_output = False\<close>
  that returns audio runs it twice: \<open>cleanup(verbose=True)\<close> at line 113, then \<open>cleanup()\<close>
  in the \<open>finally\<close> clause of \<open>_generate_audio\<close>.
\<close>

theorem cleanup_exactly_once_counterexample:
  "fst (generate_audio stub_deps stub_world ''ab'' ''a'' 1 False) = Inr (Some [0, 97, 98])
   \<and> filter is_cleanup (fst (snd (generate_audio stub_deps stub_world ''ab'' ''a'' 1 False)))
       = [Cleanup True, Cleanup False]
   \<and> cleanups (fst (snd (generate_audio stub_deps stub_world ''ab'' ''a'' 1 False))) = 2"
  by (simp add: get_voice_path_def voice_file_def os_path_join_def load_voice_def
        torch_load_def lru_insert_def call_process_text_def voice_first_def stub_deps_def
        stub_world_def generate_audio_def generate_audio_internal_def
        generate_audio_internal_try_def call_generate_from_tokens_def cleanups_def)

text \<open>
  Claim C6, amended.  \<open>cleanup\<close> runs on every exit path, and the last thing a request
  does is the call \<open>cleanup()\<close> of its \<open>finally\<close> clause.
  \<^item> A non-streaming call \<open>_generate_audio\<close> runs \<open>cleanup\<close> exactly once when it raises
    and when it returns with \<open>stitch_long_output = True\<close>; when it returns with
    \<open>stitch_long_output = False\<close> it runs it twice.
  \<^item> A streaming call whose generator was started runs it exactly once, when the
    generator terminates: by exhaustion, by an exception, or because the consumer closed
    it after a \<open>yield\<close>.
\<close>

theorem cleanup_on_every_exit:
  "(generate_audio d w text voice speed stitch = (r, evs, w1) \<longrightarrow>
      cleanups evs = (case r of Inl e \<Rightarrow> 1 | Inr audio \<Rightarrow> if stitch then 1 else 2)
      \<and> last evs = Cleanup False)
   \<and> (cons \<noteq> CloseAfter 0
        \<and> generate_audio_stream d w text voice speed fmt cons = (r', evs', w2) \<longrightarrow>
      r' \<noteq> NotStarted \<and> cleanups evs' = 1 \<and> last evs' = Cleanup False)"
proof (intro conjI impI)
  assume a: "generate_audio d w text voice speed stitch = (r, evs, w1)"
  then have r: "r = fst (generate_audio_internal_try d w text voice speed stitch)"
    using generate_audio_fst [of d w "text" voice speed stitch]
    by (simp add: internal_fst)
  from a have evs: "evs = fst (snd (generate_audio d w text voice speed stitch))" by simp
  show "cleanups evs = (case r of Inl e \<Rightarrow> 1 | Inr audio \<Rightarrow> if stitch then 1 else 2)"
    unfolding evs generate_audio_events r
    by (simp add: internal_try_cleanups split: sum.splits)
  show "last evs = Cleanup False"
    unfolding evs generate_audio_events by simp
next
  assume a: "cons \<noteq> CloseAfter 0
        \<and> generate_audio_stream d w text voice speed fmt cons = (r', evs', w2)"
  then have evs: "evs' = fst (snd (generate_audio_stream d w text voice speed fmt cons))"
    and r: "r' = fst (generate_audio_stream d w text voice speed fmt cons)"
    and c: "cons \<noteq> CloseAfter 0" by simp_all
  show "r' \<noteq> NotStarted" unfolding r by (rule generate_audio_stream_events(2) [OF c])
  show "cleanups evs' = 1"
    unfolding evs generate_audio_stream_events(1) [OF c]
    by (simp add: stream_try_cleanups split: sum.splits)
  show "last evs' = Cleanup False"
    unfolding evs generate_audio_stream_events(1) [OF c] by simp
qed

theorem cleanup_on_every_exit_witness:
  "fst (generate_audio stub_deps stub_world ''axb'' ''a'' 1 True) = Inr (Some [0, 97, 0, 98])
   \<and> cleanups (fst (snd (generate_audio stub_deps stub_world ''axb'' ''a'' 1 True))) = 1
   \<and> fst (generate_audio stub_deps stub_world ''x'' ''a'' 1 False)
       = Inl (OtherException ''bad chunk'')
   \<and> cleanups (fst (snd (generate_audio stub_deps stub_world ''x'' ''a'' 1 False))) = 1
   \<and> CloseAfter 1 \<noteq> CloseAfter 0
   \<and> fst (generate_audio_stream stub_deps stub_world ''ab'' ''a'' 1 ''wav'' (CloseAfter 1)) = Closed
   \<and> cleanups (fst (snd (generate_audio_stream stub_deps stub_world ''ab'' ''a'' 1 ''wav''
                           (CloseAfter 1)))) = 1
   \<and> fst (generate_audio_stream stub_deps stub_world ''ab'' ''bad'' 1 ''wav'' ReadAll)
       = Raised (OtherException ''corrupt'')
   \<and> cleanups (fst (snd (generate_audio_stream stub_deps stub_world ''ab'' ''bad'' 1 ''wav''
                           ReadAll))) = 1"
  using cleanup_on_every_exit [where d = stub_deps and w = stub_world and ?text = "''axb''"
          and voice = "''a''" and speed = 1 and stitch = True
          and r = "fst (generate_audio stub_deps stub_world ''axb'' ''a'' 1 True)"
          and evs = "fst (snd (generate_audio stub_deps stub_world ''axb'' ''a'' 1 True))"
          and ?w1.0 = "snd (snd (generate_audio stub_deps stub_world ''axb'' ''a'' 1 True))"
          and cons = "CloseAfter 1" and fmt = "''wav''"]
        cleanup_on_every_exit [where d = stub_deps and w = stub_world and ?text = "''x''"
          and voice = "''a''" and speed = 1 and stitch = False
          and r = "fst (generate_audio stub_deps stub_world ''x'' ''a'' 1 False)"
          and evs = "fst (snd (generate_audio stub_deps stub_world ''x'' ''a'' 1 False))"
          and ?w1.0 = "snd (snd (generate_audio stub_deps stub_world ''x'' ''a'' 1 False))"
          and cons = "CloseAfter 1" and fmt = "''wav''"]
        cleanup_on_every_exit [where d = stub_deps and w = stub_world and ?text = "''ab''"
          and voice = "''a''" and speed = 1 and stitch = True
          and r = "fst (generate_audio stub_deps stub_world ''ab'' ''a'' 1 True)"
          and evs = "fst (snd (generate_audio stub_deps stub_world ''ab'' ''a'' 1 True))"
          and ?w1.0 = "snd (snd (generate_audio stub_deps stub_world ''ab'' ''a'' 1 True))"
          and cons = "CloseAfter 1" and fmt = "''wav''"
          and r' = "fst (generate_audio_stream stub_deps stub_world ''ab'' ''a'' 1 ''wav'' (CloseAfter 1))"
          and evs' = "fst (snd (generate_audio_stream stub_deps stub_world ''ab'' ''a'' 1 ''wav'' (CloseAfter 1)))"
          and ?w2.0 = "snd (snd (generate_audio_stream stub_deps stub_world ''ab'' ''a'' 1 ''wav'' (CloseAfter 1)))"]
        cleanup_on_every_exit [where d = stub_deps and w = stub_world and ?text = "''ab''"
          and voice = "''bad''" and speed = 1 and stitch = True
          and r = "fst (generate_audio stub_deps stub_world ''ab'' ''bad'' 1 True)"
          and evs = "fst (snd (generate_audio stub_deps stub_world ''ab'' ''bad'' 1 True))"
          and ?w1.0 = "snd (snd (generate_audio stub_deps stub_world ''ab'' ''bad'' 1 True))"
          and cons = ReadAll and fmt = "''wav''"
          and r' = "fst (generate_audio_stream stub_deps stub_world ''ab'' ''bad'' 1 ''wav'' ReadAll)"
          and evs' = "fst (snd (generate_audio_stream stub_deps stub_world ''ab'' ''bad'' 1 ''wav'' ReadAll))"
          and ?w2.0 = "snd (snd (generate_audio_stream stub_deps stub_world ''ab'' ''bad'' 1 ''wav'' ReadAll))"]
  by (simp add: get_voice_path_def voice_file_def os_path_join_def load_voice_def
        torch_load_def lru_insert_def call_process_text_def voice_first_def stub_deps_def
        stub_world_def generate_audio_def generate_audio_internal_def
        generate_audio_internal_try_def call_generate_from_tokens_def
        generate_audio_stream_def generate_audio_stream_try_def stream_chunks_def
        next_item_def stream_chunk_def)

section \<open>Validation\<close>

text \<open>
  Claim C7.  On both synthesis paths, if the text is empty, or empty after
  normalization, or the voice has no resolvable embedding path, a \<open>ValueError\<close> is raised
  and the only effects of the request are the log line of the handler (and, behind
  \<open>_generate_audio\<close> and in the stream, the final \<open>cleanup()\<close>): the inference model is
  never called (no \<open>ProcessText\<close>, no \<open>GenerateFromTokens\<close> event), no voice is loaded and
  the world is unchanged.  In the streaming path the generator, once started, raises
  before it yields any bytes.
\<close>

theorem validation_before_inference:
  assumes "text = [] \<or> normalize_text d text = [] \<or> get_voice_path d w voice = None"
  shows "generate_audio_internal d w text voice speed stitch =
           (Inl (ValueError (if text = [] \<or> normalize_text d text = []
                             then ''Text is empty after preprocessing''
                             else ''Voice not found: '' @ voice)),
            [LogError (''Error in audio generation: ''
                        @ (if text = [] \<or> normalize_text d text = []
                           then ''Text is empty after preprocessing''
                           else ''Voice not found: '' @ voice))],
            w)
       \<and> filter is_inference (fst (snd (generate_audio d w text voice speed stitch))) = []
       \<and> (cons \<noteq> CloseAfter 0 \<longrightarrow>
            generate_audio_stream d w text voice speed fmt cons =
              (Raised (ValueError (if text = [] then ''Text is empty''
                                   else if normalize_text d text = []
                                   then ''Text is empty after preprocessing''
                                   else ''Voice not found: '' @ voice)),
               [LogError (''Error in audio generation stream: ''
                           @ (if text = [] then ''Text is empty''
                              else if normalize_text d text = []
                              then ''Text is empty after preprocessing''
                              else ''Voice not found: '' @ voice)),
                Cleanup False],
               w)
            \<and> filter is_inference
                 (fst (snd (generate_audio_stream d w text voice speed fmt cons))) = []
            \<and> yields (fst (snd (generate_audio_stream d w text voice speed fmt cons))) = [])"
proof -
  have i: "generate_audio_internal d w text voice speed stitch =
           (Inl (ValueError (if text = [] \<or> normalize_text d text = []
                             then ''Text is empty after preprocessing''
                             else ''Voice not found: '' @ voice)),
            [LogError (''Error in audio generation: ''
                        @ (if text = [] \<or> normalize_text d text = []
                           then ''Text is empty after preprocessing''
                           else ''Voice not found: '' @ voice))],
            w)"
    using assms
    by (auto simp: generate_audio_internal_def generate_audio_internal_try_def Let_def)
  have s: "generate_audio_stream d w text voice speed fmt cons =
              (Raised (ValueError (if text = [] then ''Text is empty''
                                   else if normalize_text d text = []
                                   then ''Text is empty after preprocessing''
                                   else ''Voice not found: '' @ voice)),
               [LogError (''Error in audio generation stream: ''
                           @ (if text = [] then ''Text is empty''
                              else if normalize_text d text = []
                              then ''Text is empty after preprocessing''
                              else ''Voice not found: '' @ voice)),
                Cleanup False],
               w)" if "cons \<noteq> CloseAfter 0"
    using assms that
    by (auto simp: generate_audio_stream_def generate_audio_stream_try_def Let_def)
  have g: "filter is_inference (fst (snd (generate_audio d w text voice speed stitch))) = []"
    by (simp add: generate_audio_def i)
  from i g s show ?thesis by simp
qed

theorem validation_before_inference_witness:
  "normalize_text stub_deps ''  '' = []
   \<and> generate_audio_internal stub_deps stub_world ''  '' ''a'' 1 True =
     (Inl (ValueError ''Text is empty after preprocessing''),
      [LogError ''Error in audio generation: Text is empty after preprocessing''], stub_world)
   \<and> generate_audio_stream stub_deps stub_world ''  '' ''a'' 1 ''wav'' ReadAll =
     (Raised (ValueError ''Text is empty after preprocessing''),
      [LogError ''Error in audio generation stream: Text is empty after preprocessing'',
       Cleanup False], stub_world)
   \<and> get_voice_path stub_deps stub_world ''nobody'' = None
   \<and> generate_audio_stream stub_deps stub_world ''ab'' ''nobody'' 1 ''wav'' ReadAll =
     (Raised (ValueError ''Voice not found: nobody''),
      [LogError ''Error in audio generation stream: Voice not found: nobody'',
       Cleanup False], stub_world)"
  using validation_before_inference [where d = stub_deps and w = stub_world and ?text = "''  ''"
          and voice = "''a''" and speed = 1 and stitch = True and cons = ReadAll
          and fmt = "''wav''"]
        validation_before_inference [where d = stub_deps and w = stub_world and ?text = "''ab''"
          and voice = "''nobody''" and speed = 1 and stitch = True and cons = ReadAll
          and fmt = "''wav''"]
  by (simp add: stub_deps_def stub_world_def get_voice_path_def voice_file_def os_path_join_def)

section \<open>Voice combination\<close>

text \<open>
  The loading loop either loads every voice, or stops at the first voice whose load
  raises.
\<close>

lemma combine_load_all:
  "map (\<lambda>v. torch_load w (voice_file d v)) voices = map Inr ts \<Longrightarrow>
   combine_load d w voices t_voices v_name =
     (Inr (t_voices @ ts, v_name @ voices), map (\<lambda>v. TorchLoad (voice_file d v)) voices)"
proof (induction voices arbitrary: ts t_voices v_name)
  case Nil
  then show ?case by simp
next
  case (Cons v vs)
  then obtain t ts' where ts: "ts = t # ts'" by (cases ts) auto
  with Cons.prems have t: "torch_load w (voice_file d v) = Inr t"
    and rest: "map (\<lambda>v. torch_load w (voice_file d v)) vs = map Inr ts'" by simp_all
  show ?case by (simp add: Let_def t ts Cons.IH [OF rest])
qed

lemma combine_load_first_failure:
  assumes "map (\<lambda>v. torch_load w (voice_file d v)) pre = map Inr ts"
    and "torch_load w (voice_file d v) = Inl e"
  shows "combine_load d w (pre @ v # post) t_voices v_name =
     (Inl (ValueError (''Failed to load voice '' @ v @ '': '' @ str_exn e)),
      map (\<lambda>u. TorchLoad (voice_file d u)) (pre @ [v]))"
  using assms(1)
proof (induction pre arbitrary: ts t_voices v_name)
  case Nil
  then show ?case by (simp add: Let_def assms(2))
next
  case (Cons u us)
  then obtain t ts' where ts: "ts = t # ts'" by (cases ts) auto
  with Cons.prems have t: "torch_load w (voice_file d u) = Inr t"
    and rest: "map (\<lambda>v. torch_load w (voice_file d v)) us = map Inr ts'" by simp_all
  show ?case by (simp add: Let_def t Cons.IH [OF rest])
qed

lemma loads_all_Inr:
  "(\<forall>u\<in>set pre. \<exists>t. torch_load w (voice_file d u) = Inr t) \<Longrightarrow>
   \<exists>ts. map (\<lambda>v. torch_load w (voice_file d v)) pre = map Inr ts"
proof (induction pre)
  case Nil
  show ?case by simp
next
  case (Cons u us)
  then obtain t ts where "torch_load w (voice_file d u) = Inr t"
    "map (\<lambda>v. torch_load w (voice_file d v)) us = map Inr ts" by auto
  then have "map (\<lambda>v. torch_load w (voice_file d v)) (u # us) = map Inr (t # ts)" by simp
  then show ?case by blast
qed

lemma first_failing_voice:
  assumes "\<exists>v\<in>set voices. \<exists>e. torch_load w (voice_file d v) = Inl e"
  shows "\<exists>pre v post e. voices = pre @ v # post
           \<and> (\<forall>u\<in>set pre. \<exists>t. torch_load w (voice_file d u) = Inr t)
           \<and> torch_load w (voice_file d v) = Inl e"
proof -
  from split_list_first_prop [OF assms]
  obtain pre v post where v: "voices = pre @ v # post"
    "\<exists>e. torch_load w (voice_file d v) = Inl e"
    "\<forall>u\<in>set pre. \<not> (\<exists>e. torch_load w (voice_file d u) = Inl e)" by blast
  have "\<forall>u\<in>set pre. \<exists>t. torch_load w (voice_file d u) = Inr t"
  proof
    fix u assume "u \<in> set pre"
    with v(3) show "\<exists>t. torch_load w (voice_file d u) = Inr t"
      by (cases "torch_load w (voice_file d u)") auto
  qed
  with v show ?thesis by blast
qed

lemma combine_voices_cache: "cache (snd (snd (combine_voices d w voices))) = cache w"
  by (simp add: combine_voices_def Let_def split: prod.splits sum.splits option.splits)

text \<open>
  Claim C5, as stated, fails: the claim promises, for every call with two or more names
  whose embeddings all load, that the mean is persisted and the joined name returned.
  \<^item> With a voice store that refuses the write, the voices \<open>a\<close> and \<open>b\<close> both load, yet
    \<open>combine_voices\<close> raises \<open>RuntimeError\<close> (the handler around \<open>torch.save\<close>), returns no
    name and persists nothing.
  \<^item> The voices \<open>i\<close> and \<open>j\<close>, of an integer dtype, both load, but the library's mean
    raises: \<open>combine_voices\<close> raises \<open>RuntimeError\<close>, no save is attempted and nothing is
    returned.
  \<^item> The voices \<open>a\<close> and \<open>long\<close>, of different shapes, both load, but stacking raises.
\<close>

theorem combine_voices_save_fails_counterexample:
  "map (\<lambda>v. torch_load stub_world (voice_file stub_deps_read_only v)) [''a'', ''b'']
     = [Inr (FloatTensor [2, 2]), Inr (FloatTensor [4, 4])]
   \<and> fst (combine_voices stub_deps_read_only stub_world [''a'', ''b''])
     = Inl (RuntimeError ''Failed to save combined voice to v/a_b.pt: read-only file system'')
   \<and> files (snd (snd (combine_voices stub_deps_read_only stub_world [''a'', ''b''])))
        ''v/a_b.pt'' = None
   \<and> map (\<lambda>v. torch_load stub_world (voice_file stub_deps v)) [''i'', ''j'']
     = [Inr (IntTensor [2, 2]), Inr (IntTensor [4, 4])]
   \<and> combine_voices stub_deps stub_world [''i'', ''j'']
     = (Inl (RuntimeError ''mean of an integer dtype''),
        [TorchLoad ''v/i.pt'', TorchLoad ''v/j.pt''], stub_world)
   \<and> map (\<lambda>v. torch_load stub_world (voice_file stub_deps v)) [''a'', ''long'']
     = [Inr (FloatTensor [2, 2]), Inr (FloatTensor [1, 2, 3])]
   \<and> combine_voices stub_deps stub_world [''a'', ''long'']
     = (Inl (RuntimeError ''tensors of different sizes''),
        [TorchLoad ''v/a.pt'', TorchLoad ''v/long.pt''], stub_world)"
  by (simp add: combine_voices_def Let_def voice_file_def os_path_join_def torch_load_def
        stub_mean_stack_def wrap_combining_def
        stub_deps_read_only_def stub_deps_def stub_world_def)

text \<open>
  Claim C5, amended.  With fewer than two names \<open>combine_voices\<close> raises the validation
  error and does nothing else.  With two or more names whose embeddings \<open>ts\<close> all load:
  \<^item> each voice is read with \<open>torch.load\<close> directly, in input order;
  \<^item> if the library expression \<open>torch.mean(torch.stack(ts), dim=0)\<close> returns a tensor
    \<open>v\<close> and the write of the combined file succeeds, then the tensor saved is \<open>v\<close>, the
    element-wise mean of \<open>ts\<close> as the library computes it; it is stored in the file of
    the voice named by joining the input names with \<open>_\<close> in input order; and that name
    is returned;
  \<^item> if the library expression raises (tensors of different shapes, an integer dtype),
    its exception leaves the call (as it is when it is a \<open>RuntimeError\<close> or a
    \<open>ValueError\<close>, wrapped in a \<open>RuntimeError\<close> otherwise), no save is attempted and
    nothing is returned;
  \<^item> if the write raises, a \<open>RuntimeError\<close> naming the path leaves the call and the
    voice store is unchanged.
  The loads bypass the voice cache: storage is read for every name and the cache is
  never changed.
\<close>

theorem combine_voices_mean:
  "(length voices < 2 \<longrightarrow>
      combine_voices d w voices =
        (Inl (ValueError ''At least 2 voices are required for combination''), [], w))
   \<and> (2 \<le> length voices
        \<and> map (\<lambda>v. torch_load w (voice_file d v)) voices = map Inr ts
        \<and> torch_mean_stack d ts = Inr v
        \<and> save_error d (voice_file d (str_join ''_'' voices)) = None \<longrightarrow>
      combine_voices d w voices =
        (Inr (str_join ''_'' voices),
         map (\<lambda>v. TorchLoad (voice_file d v)) voices
           @ [TorchSave (voice_file d (str_join ''_'' voices)) v, Cleanup False],
         w\<lparr>files := (files w)(voice_file d (str_join ''_'' voices) \<mapsto> Tensor v)\<rparr>))
   \<and> (2 \<le> length voices
        \<and> map (\<lambda>v. torch_load w (voice_file d v)) voices = map Inr ts
        \<and> torch_mean_stack d ts = Inl e \<longrightarrow>
      combine_voices d w voices =
        (Inl (wrap_combining e), map (\<lambda>v. TorchLoad (voice_file d v)) voices, w))
   \<and> (2 \<le> length voices
        \<and> map (\<lambda>v. torch_load w (voice_file d v)) voices = map Inr ts
        \<and> torch_mean_stack d ts = Inr v
        \<and> save_error d (voice_file d (str_join ''_'' voices)) = Some e' \<longrightarrow>
      combine_voices d w voices =
        (Inl (RuntimeError (''Failed to save combined voice to ''
                 @ voice_file d (str_join ''_'' voices) @ '': '' @ str_exn e')),
         map (\<lambda>v. TorchLoad (voice_file d v)) voices
           @ [TorchSave (voice_file d (str_join ''_'' voices)) v, Cleanup False],
         w))
   \<and> cache (snd (snd (combine_voices d w voices))) = cache w"
proof (intro conjI impI)
  assume "length voices < 2"
  then show "combine_voices d w voices =
        (Inl (ValueError ''At least 2 voices are required for combination''), [], w)"
    by (simp add: combine_voices_def)
next
  assume a: "2 \<le> length voices
        \<and> map (\<lambda>v. torch_load w (voice_file d v)) voices = map Inr ts
        \<and> torch_mean_stack d ts = Inr v
        \<and> save_error d (voice_file d (str_join ''_'' voices)) = None"
  then have loads: "map (\<lambda>v. torch_load w (voice_file d v)) voices = map Inr ts"
    and mean: "torch_mean_stack d ts = Inr v"
    and save: "save_error d (os_path_join (VOICES_DIR d) (str_join ''_'' voices @ ''.pt'')) = None"
    and n: "\<not> length voices < 2"
    by (simp_all add: voice_file_def)
  show "combine_voices d w voices =
        (Inr (str_join ''_'' voices),
         map (\<lambda>v. TorchLoad (voice_file d v)) voices
           @ [TorchSave (voice_file d (str_join ''_'' voices)) v, Cleanup False],
         w\<lparr>files := (files w)(voice_file d (str_join ''_'' voices) \<mapsto> Tensor v)\<rparr>)"
    using n save mean
    by (simp add: combine_voices_def Let_def combine_load_all [OF loads] voice_file_def)
next
  assume a: "2 \<le> length voices
        \<and> map (\<lambda>v. torch_load w (voice_file d v)) voices = map Inr ts
        \<and> torch_mean_stack d ts = Inl e"
  then have loads: "map (\<lambda>v. torch_load w (voice_file d v)) voices = map Inr ts"
    and mean: "torch_mean_stack d ts = Inl e"
    and n: "\<not> length voices < 2"
    by simp_all
  show "combine_voices d w voices =
        (Inl (wrap_combining e), map (\<lambda>v. TorchLoad (voice_file d v)) voices, w)"
    using n mean
    by (simp add: combine_voices_def Let_def combine_load_all [OF loads])
next
  assume a: "2 \<le> length voices
        \<and> map (\<lambda>v. torch_load w (voice_file d v)) voices = map Inr ts
        \<and> torch_mean_stack d ts = Inr v
        \<and> save_error d (voice_file d (str_join ''_'' voices)) = Some e'"
  then have loads: "map (\<lambda>v. torch_load w (voice_file d v)) voices = map Inr ts"
    and mean: "torch_mean_stack d ts = Inr v"
    and save: "save_error d (os_path_join (VOICES_DIR d) (str_join ''_'' voices @ ''.pt''))
                 = Some e'"
    and n: "\<not> length voices < 2"
    by (simp_all add: voice_file_def)
  show "combine_voices d w voices =
        (Inl (RuntimeError (''Failed to save combined voice to ''
                 @ voice_file d (str_join ''_'' voices) @ '': '' @ str_exn e')),
         map (\<lambda>v. TorchLoad (voice_file d v)) voices
           @ [TorchSave (voice_file d (str_join ''_'' voices)) v, Cleanup False],
         w)"
    using n save mean
    by (simp add: combine_voices_def Let_def combine_load_all [OF loads] voice_file_def
          wrap_combining_def)
next
  show "cache (snd (snd (combine_voices d w voices))) = cache w"
    by (rule combine_voices_cache)
qed

theorem combine_voices_mean_witness:
  "length [''a''] < 2
   \<and> fst (combine_voices stub_deps stub_world [''a''])
       = Inl (ValueError ''At least 2 voices are required for combination'')
   \<and> 2 \<le> length [''a'', ''b'']
   \<and> map (\<lambda>v. torch_load stub_world (voice_file stub_deps v)) [''a'', ''b'']
       = map Inr [FloatTensor [2, 2], FloatTensor [4, 4]]
   \<and> torch_mean_stack stub_deps [FloatTensor [2, 2], FloatTensor [4, 4]]
       = Inr (FloatTensor [3, 3])
   \<and> save_error stub_deps (voice_file stub_deps (str_join ''_'' [''a'', ''b''])) = None
   \<and> fst (combine_voices stub_deps stub_world [''a'', ''b'']) = Inr ''a_b''
   \<and> fst (snd (combine_voices stub_deps stub_world [''a'', ''b'']))
       = [TorchLoad ''v/a.pt'', TorchLoad ''v/b.pt'',
          TorchSave ''v/a_b.pt'' (FloatTensor [3, 3]), Cleanup False]
   \<and> files (snd (snd (combine_voices stub_deps stub_world [''a'', ''b''])))  ''v/a_b.pt''
       = Some (Tensor (FloatTensor [3, 3]))
   \<and> map (\<lambda>v. torch_load stub_world (voice_file stub_deps v)) [''i'', ''j'']
       = map Inr [IntTensor [2, 2], IntTensor [4, 4]]
   \<and> torch_mean_stack stub_deps [IntTensor [2, 2], IntTensor [4, 4]]
       = Inl (RuntimeError ''mean of an integer dtype'')
   \<and> combine_voices stub_deps stub_world [''i'', ''j'']
       = (Inl (RuntimeError ''mean of an integer dtype''),
          [TorchLoad ''v/i.pt'', TorchLoad ''v/j.pt''], stub_world)
   \<and> save_error stub_deps_read_only
         (voice_file stub_deps_read_only (str_join ''_'' [''a'', ''b'']))
       = Some (OtherException ''read-only file system'')
   \<and> combine_voices stub_deps_read_only stub_world [''a'', ''b'']
       = (Inl (RuntimeError
                 ''Failed to save combined voice to v/a_b.pt: read-only file system''),
          [TorchLoad ''v/a.pt'', TorchLoad ''v/b.pt'',
           TorchSave ''v/a_b.pt'' (FloatTensor [3, 3]), Cleanup False], stub_world)"
  using combine_voices_mean [where d = stub_deps and w = stub_world and voices = "[''a'']"]
        combine_voices_mean [where d = stub_deps and w = stub_world and voices = "[''a'', ''b'']"
          and ts = "[FloatTensor [2, 2], FloatTensor [4, 4]]" and v = "FloatTensor [3, 3]"]
        combine_voices_mean [where d = stub_deps and w = stub_world and voices = "[''i'', ''j'']"
          and ts = "[IntTensor [2, 2], IntTensor [4, 4]]"
          and e = "RuntimeError ''mean of an integer dtype''"]
        combine_voices_mean [where d = stub_deps_read_only and w = stub_world
          and voices = "[''a'', ''b'']"
          and ts = "[FloatTensor [2, 2], FloatTensor [4, 4]]" and v = "FloatTensor [3, 3]"
          and e' = "OtherException ''read-only file system''"]
  by (simp add: voice_file_def os_path_join_def torch_load_def stub_mean_stack_def
        wrap_combining_def stub_deps_read_only_def stub_deps_def stub_world_def)

text \<open>
  Claim C10.  \<open>combine_voices\<close> is atomic with respect to the voice store when a load
  fails: in a call with at least two names where loading some named voice raises, the
  function raises a \<open>ValueError\<close> naming the first such voice with the message of its
  exception, after reading only the voices up to it; no save is attempted and the world
  is unchanged.  Conversely, if a save is attempted at all, every named voice has loaded.
\<close>

theorem combine_voices_load_failure:
  "(2 \<le> length voices \<and> (\<exists>v\<in>set voices. \<exists>e. torch_load w (voice_file d v) = Inl e) \<longrightarrow>
      (\<exists>pre v post e.
          voices = pre @ v # post
          \<and> (\<forall>u\<in>set pre. \<exists>t. torch_load w (voice_file d u) = Inr t)
          \<and> torch_load w (voice_file d v) = Inl e
          \<and> combine_voices d w voices =
              (Inl (ValueError (''Failed to load voice '' @ v @ '': '' @ str_exn e)),
               map (\<lambda>u. TorchLoad (voice_file d u)) (pre @ [v]), w))
      \<and> filter is_save (fst (snd (combine_voices d w voices))) = []
      \<and> snd (snd (combine_voices d w voices)) = w)
   \<and> (filter is_save (fst (snd (combine_voices d w voices))) \<noteq> [] \<longrightarrow>
        (\<forall>v\<in>set voices. \<exists>t. torch_load w (voice_file d v) = Inr t))"
proof -
  have fails: "\<exists>pre v post e.
          voices = pre @ v # post
          \<and> (\<forall>u\<in>set pre. \<exists>t. torch_load w (voice_file d u) = Inr t)
          \<and> torch_load w (voice_file d v) = Inl e
          \<and> combine_voices d w voices =
              (Inl (ValueError (''Failed to load voice '' @ v @ '': '' @ str_exn e)),
               map (\<lambda>u. TorchLoad (voice_file d u)) (pre @ [v]), w)"
    if len: "2 \<le> length voices"
      and bad: "\<exists>v\<in>set voices. \<exists>e. torch_load w (voice_file d v) = Inl e"
  proof -
    from first_failing_voice [OF bad]
    obtain pre v post e where v: "voices = pre @ v # post"
      "\<forall>u\<in>set pre. \<exists>t. torch_load w (voice_file d u) = Inr t"
      "torch_load w (voice_file d v) = Inl e" by blast
    from loads_all_Inr [OF v(2)]
    obtain ts where ts: "map (\<lambda>v. torch_load w (voice_file d v)) pre = map Inr ts" ..
    have "combine_voices d w (pre @ v # post) =
              (Inl (ValueError (''Failed to load voice '' @ v @ '': '' @ str_exn e)),
               map (\<lambda>u. TorchLoad (voice_file d u)) (pre @ [v]), w)"
      using len unfolding v(1)
      by (auto simp: combine_voices_def combine_load_first_failure [OF ts v(3)])
    with v show ?thesis by blast
  qed
  have no_save: "filter is_save (fst (snd (combine_voices d w voices))) = []
      \<and> snd (snd (combine_voices d w voices)) = w"
    if len: "2 \<le> length voices"
      and bad: "\<exists>v\<in>set voices. \<exists>e. torch_load w (voice_file d v) = Inl e"
  proof -
    from fails [OF len bad] obtain pre v e where
      "combine_voices d w voices =
         (Inl (ValueError (''Failed to load voice '' @ v @ '': '' @ str_exn e)),
          map (\<lambda>u. TorchLoad (voice_file d u)) (pre @ [v]), w)" by blast
    then show ?thesis by (simp add: filter_empty_conv)
  qed
  have only_after: "\<forall>v\<in>set voices. \<exists>t. torch_load w (voice_file d v) = Inr t"
    if saved: "filter is_save (fst (snd (combine_voices d w voices))) \<noteq> []"
  proof (rule ccontr)
    assume "\<not> (\<forall>v\<in>set voices. \<exists>t. torch_load w (voice_file d v) = Inr t)"
    then obtain v where "v \<in> set voices" "\<nexists>t. torch_load w (voice_file d v) = Inr t" by blast
    then have bad: "\<exists>v\<in>set voices. \<exists>e. torch_load w (voice_file d v) = Inl e"
      by (cases "torch_load w (voice_file d v)") auto
    show False
    proof (cases "2 \<le> length voices")
      case True
      from no_save [OF True bad] saved show False by simp
    next
      case False
      then have "fst (snd (combine_voices d w voices)) = []"
        by (simp add: combine_voices_def)
      with saved show False by simp
    qed
  qed
  from fails no_save only_after show ?thesis by blast
qed

theorem combine_voices_load_failure_witness:
  "2 \<le> length [''a'', ''bad'', ''b'']
   \<and> torch_load stub_world (voice_file stub_deps ''bad'') = Inl (OtherException ''corrupt'')
   \<and> combine_voices stub_deps stub_world [''a'', ''bad'', ''b''] =
     (Inl (ValueError ''Failed to load voice bad: corrupt''),
      [TorchLoad ''v/a.pt'', TorchLoad ''v/bad.pt''], stub_world)
   \<and> filter is_save (fst (snd (combine_voices stub_deps stub_world [''a'', ''b''])))
       = [TorchSave ''v/a_b.pt'' (FloatTensor [3, 3])]
   \<and> torch_load stub_world (voice_file stub_deps ''a'') = Inr (FloatTensor [2, 2])
   \<and> torch_load stub_world (voice_file stub_deps ''b'') = Inr (FloatTensor [4, 4])"
  using combine_voices_load_failure [where d = stub_deps and w = stub_world
          and voices = "[''a'', ''bad'', ''b'']"]
        combine_voices_load_failure [where d = stub_deps and w = stub_world
          and voices = "[''a'', ''b'']"]
  by (simp add: combine_voices_def Let_def voice_file_def os_path_join_def torch_load_def
        stub_mean_stack_def stub_deps_def stub_world_def)

end
